theory Spec2Isabelle
  imports Complex_Main "HOL-Library.AList"
begin

section \<open>JavaScript values\<close>

text \<open>
  The handlers of the community backend read request bodies that the HTTP layer has
  parsed from JSON, so a field can hold any JSON value or be absent. A number is an
  IEEE double: not-a-number, an infinity, or a finite value, which is modelled by the
  rational it denotes (rounding is not modelled). Strings are Isabelle strings: an ASCII
  character is itself, and a character beyond ASCII is the sequence of its bytes, each of
  them above 127.
\<close>

datatype jsnum = NaN | NInf | Fin rat | PInf

datatype jsval =
    JUndefined
  | JNull
  | JBool bool
  | JNum jsnum
  | JStr string
  | JObj "(string \<times> jsval) list"
  | JArr "jsval list"

type_synonym obj = "(string \<times> jsval) list"

text \<open>\<open>o.k\<close> on an object: \<open>undefined\<close> when the key is absent.\<close>

definition getProp :: "obj \<Rightarrow> string \<Rightarrow> jsval" where
  "getProp ob k = (case map_of ob k of None \<Rightarrow> JUndefined | Some v \<Rightarrow> v)"

text \<open>\<open>o[k] = v\<close>: an existing key keeps its place, a new key goes last.\<close>

definition setProp :: "obj \<Rightarrow> string \<Rightarrow> jsval \<Rightarrow> obj" where
  "setProp ob k v = AList.update k v ob"

fun truthy :: "jsval \<Rightarrow> bool" where
  "truthy JUndefined = False"
| "truthy JNull = False"
| "truthy (JBool b) = b"
| "truthy (JNum n) = (n \<noteq> NaN \<and> n \<noteq> Fin 0)"
| "truthy (JStr s) = (s \<noteq> [])"
| "truthy (JObj ob) = True"
| "truthy (JArr xs) = True"

section \<open>Error model\<close>

text \<open>
  \<open>ParametricError\<close> and \<open>NonParametricError\<close> are the two subclasses of
  \<open>CustomError\<close>; each holds the array it was constructed with. Every other thrown value
  (a \<open>TypeError\<close> of the runtime, an error of the query layer or of the token library) is
  \<open>OtherError\<close> with its message.
\<close>

datatype error =
    ParametricError "obj list"
  | NonParametricError "obj list"
  | OtherError string

fun serializeErrors :: "error \<Rightarrow> obj list" where
  "serializeErrors (ParametricError errs) =
     map (\<lambda>err. [(''param'', getProp err ''param''),
                 (''message'', getProp err ''message''),
                 (''code'', getProp err ''code'')]) errs"
| "serializeErrors (NonParametricError errs) =
     map (\<lambda>err. [(''message'', getProp err ''message''),
                 (''code'', getProp err ''code'')]) errs"
| "serializeErrors (OtherError m) = []"

record response =
  res_status :: nat
  res_json :: jsval

fun globalErrorHandler :: "error \<Rightarrow> response" where
  "globalErrorHandler (OtherError m) =
     \<lparr>res_status = 400, res_json = JObj [(''status'', JBool False), (''message'', JStr m)]\<rparr>"
| "globalErrorHandler err =
     \<lparr>res_status = 400,
      res_json = JObj [(''status'', JBool False),
                       (''errors'', JArr (map JObj (serializeErrors err)))]\<rparr>"

definition is_general :: "error \<Rightarrow> bool" where
  "is_general err = (case err of NonParametricError errs \<Rightarrow> True | _ \<Rightarrow> False)"

definition carries_param :: "error \<Rightarrow> bool" where
  "carries_param err = list_ex (\<lambda>s. map_of s ''param'' \<noteq> None) (serializeErrors err)"

definition notAllowed :: error where
  "notAllowed = NonParametricError
     [[(''message'', JStr ''You are not authorized to perform this action.''),
       (''code'', JStr ''NOT_ALLOWED_ACCESS'')]]"

section \<open>Requests\<close>

text \<open>
  \<open>req_session\<close> is \<open>None\<close> when the request has no session object;
  \<open>req_currentUser = Some v\<close> stands for \<open>req.currentUser = {id: v}\<close>.
\<close>

record request =
  req_body :: obj
  req_params :: obj
  req_query :: obj
  req_session :: "obj option"
  req_currentUser :: "jsval option"

definition session_jwt :: "request \<Rightarrow> jsval" where
  "session_jwt req = (case req_session req of None \<Rightarrow> JUndefined | Some s \<Rightarrow> getProp s ''jwt'')"

section \<open>Request validation\<close>

text \<open>
  The validation chains of the route validators are values of the validation library.
  A chain names a field of the body or of the path parameters and lists its validators,
  each with the message it reports; \<open>withMessage\<close> sets the message of the validator
  added last, and the library's default message is \<open>Invalid value\<close>.
\<close>

datatype location = Body | Params

datatype validator = Exists | ExistsFalsy | IsString | IsLength nat | IsEmail

record chain =
  ch_location :: location
  ch_field :: string
  ch_validators :: "(validator \<times> string) list"

definition body :: "string \<Rightarrow> chain" where
  "body f = \<lparr>ch_location = Body, ch_field = f, ch_validators = []\<rparr>"

definition param :: "string \<Rightarrow> chain" where
  "param f = \<lparr>ch_location = Params, ch_field = f, ch_validators = []\<rparr>"

definition addValidator :: "validator \<Rightarrow> chain \<Rightarrow> chain" where
  "addValidator v ch = ch\<lparr>ch_validators := ch_validators ch @ [(v, ''Invalid value'')]\<rparr>"

definition vexists :: "chain \<Rightarrow> chain" where
  "vexists = addValidator Exists"

definition existsFalsy :: "chain \<Rightarrow> chain" where
  "existsFalsy = addValidator ExistsFalsy"

definition isString :: "chain \<Rightarrow> chain" where
  "isString = addValidator IsString"

definition isLength :: "nat \<Rightarrow> chain \<Rightarrow> chain" where
  "isLength n = addValidator (IsLength n)"

definition isEmail :: "chain \<Rightarrow> chain" where
  "isEmail = addValidator IsEmail"

definition withMessage :: "string \<Rightarrow> chain \<Rightarrow> chain" where
  "withMessage m ch =
     (case rev (ch_validators ch) of
        [] \<Rightarrow> ch
      | (v, old) # earlier \<Rightarrow> ch\<lparr>ch_validators := rev earlier @ [(v, m)]\<rparr>)"

text \<open>
  The library's validation error, \<open>{type, value, msg, path, location}\<close>.
\<close>

record verror =
  ve_value :: jsval
  ve_msg :: string
  ve_path :: string
  ve_location :: location

definition location_name :: "location \<Rightarrow> string" where
  "location_name l = (case l of Body \<Rightarrow> ''body'' | Params \<Rightarrow> ''params'')"

definition verror_obj :: "verror \<Rightarrow> obj" where
  "verror_obj e =
     [(''type'', JStr ''field''),
      (''value'', ve_value e),
      (''msg'', JStr (ve_msg e)),
      (''path'', JStr (ve_path e)),
      (''location'', JStr (location_name (ve_location e)))]"

text \<open>
  The string a standard validator sees. \<open>str\<close> is the runtime's \<open>String\<close> conversion,
  used for numbers, booleans, objects and arrays.
\<close>

fun stringify :: "(jsval \<Rightarrow> string) \<Rightarrow> jsval \<Rightarrow> string" where
  "stringify str (JStr s) = s"
| "stringify str JUndefined = []"
| "stringify str JNull = []"
| "stringify str (JNum NaN) = []"
| "stringify str v = str v"

text \<open>
  The values a validator rejects. \<open>exists\<close> and \<open>isString\<close> judge the field's value as
  it is; \<open>isLength\<close> and \<open>isEmail\<close> are string validators, applied to the value made a
  string, and to each element of an array. \<open>email\<close> is the library's e-mail predicate.
\<close>

fun rejected :: "(jsval \<Rightarrow> string) \<Rightarrow> (string \<Rightarrow> bool) \<Rightarrow> validator \<Rightarrow> jsval \<Rightarrow> jsval list" where
  "rejected str email Exists v = (if v \<noteq> JUndefined then [] else [v])"
| "rejected str email ExistsFalsy v = (if truthy v then [] else [v])"
| "rejected str email IsString v = (case v of JStr s \<Rightarrow> [] | _ \<Rightarrow> [v])"
| "rejected str email (IsLength n) v =
     filter (\<lambda>x. \<not> n \<le> length (stringify str x)) (case v of JArr xs \<Rightarrow> xs | _ \<Rightarrow> [v])"
| "rejected str email IsEmail v =
     filter (\<lambda>x. \<not> email (stringify str x)) (case v of JArr xs \<Rightarrow> xs | _ \<Rightarrow> [v])"

definition field_value :: "request \<Rightarrow> chain \<Rightarrow> jsval" where
  "field_value req ch =
     (case ch_location ch of
        Body \<Rightarrow> getProp (req_body req) (ch_field ch)
      | Params \<Rightarrow> getProp (req_params req) (ch_field ch))"

definition run_chain :: "(jsval \<Rightarrow> string) \<Rightarrow> (string \<Rightarrow> bool) \<Rightarrow> request \<Rightarrow> chain \<Rightarrow> verror list" where
  "run_chain str email req ch =
     concat (map (\<lambda>(v, m).
        map (\<lambda>x. \<lparr>ve_value = x, ve_msg = m, ve_path = ch_field ch,
                  ve_location = ch_location ch\<rparr>)
            (rejected str email v (field_value req ch)))
       (ch_validators ch))"

definition run_chains :: "(jsval \<Rightarrow> string) \<Rightarrow> (string \<Rightarrow> bool) \<Rightarrow> request \<Rightarrow> chain list \<Rightarrow> verror list" where
  "run_chains str email req chs = concat (map (run_chain str email req) chs)"

subsection \<open>The rule sets of the routes\<close>

definition addMemberVal :: "chain list" where
  "addMemberVal =
     [withMessage ''Community ID must be a string.'' (isString
        (withMessage ''Community ID must be provided.'' (existsFalsy (body ''community'')))),
      withMessage ''User ID must be a string.'' (isString
        (withMessage ''User ID must be provided.'' (existsFalsy (body ''user'')))),
      withMessage ''Role ID must be a string.'' (isString
        (withMessage ''Role ID must be provided.'' (existsFalsy (body ''role''))))]"

definition deleteMemberVal :: "chain list" where
  "deleteMemberVal =
     [withMessage ''User ID must be a string.'' (isString
        (withMessage ''User ID must be provided.'' (existsFalsy (param ''id''))))]"

definition createCommunityVal :: "chain list" where
  "createCommunityVal =
     [withMessage ''Name must be at least 2 characters long.''
        (isLength 2 (isString (vexists (body ''name''))))]"

definition createRoleVal :: "chain list" where
  "createRoleVal =
     [withMessage ''Name should be at least 2 characters.''
        (isLength 2 (isString (vexists (body ''name''))))]"

definition signupUserVal :: "chain list" where
  "signupUserVal =
     [withMessage ''Name must be at least 2 characters long.''
        (isLength 2 (isString (vexists (body ''name'')))),
      withMessage ''Please provide a valid email address.''
        (isEmail (vexists (body ''email''))),
      withMessage ''Password should be at least 2 characters.''
        (isLength 2 (isString (vexists (body ''password''))))]"

definition signinUserVal :: "chain list" where
  "signinUserVal =
     [withMessage ''Please provide a valid email address.''
        (isEmail (vexists (body ''email''))),
      withMessage ''Password should be at least 2 characters.''
        (isLength 2 (isString (vexists (body ''password''))))]"

subsection \<open>Key renaming and the validation middleware\<close>

definition toLowerChar :: "char \<Rightarrow> char" where
  "toLowerChar c =
     (case map_of (zip ''ABCDEFGHIJKLMNOPQRSTUVWXYZ'' ''abcdefghijklmnopqrstuvwxyz'') c of
        None \<Rightarrow> c
      | Some l \<Rightarrow> l)"

definition toLowerCase :: "string \<Rightarrow> string" where
  "toLowerCase s = map toLowerChar s"

text \<open>
  \<open>renameKeys\<close>: the loop over the keys of \<open>obj\<close>, with \<open>newObj\<close> as accumulator, then
  the assignment of \<open>code\<close>. \<open>keyMap[key] || key\<close> falls back to the key when the
  mapping has no entry or an empty one.
\<close>

definition newKey :: "(string \<times> string) list \<Rightarrow> string \<Rightarrow> string" where
  "newKey keyMap k =
     (case map_of keyMap k of None \<Rightarrow> k | Some k' \<Rightarrow> if k' = [] then k else k')"

fun renameLoop :: "obj \<Rightarrow> (string \<times> string) list \<Rightarrow> obj \<Rightarrow> obj" where
  "renameLoop [] keyMap newObj = newObj"
| "renameLoop ((k, v) # rest) keyMap newObj =
     renameLoop rest keyMap (setProp newObj (newKey keyMap k) v)"

definition renameKeys :: "obj \<Rightarrow> (string \<times> string) list \<Rightarrow> obj" where
  "renameKeys ob keyMap = setProp (renameLoop ob keyMap []) ''code'' (JStr ''INVALID_INPUT'')"

definition keyMap :: "(string \<times> string) list" where
  "keyMap = [(''msg'', ''message''), (''path'', ''param'')]"

text \<open>
  \<open>validateRequest\<close> reads the errors the rule set left on the request. It throws, which
  the router turns into a call of the error dispatcher.
\<close>

definition validateRequest :: "verror list \<Rightarrow> error + unit" where
  "validateRequest errors =
     (if errors \<noteq> [] then
        Inl (ParametricError
          (map (\<lambda>err. renameKeys (verror_obj err) keyMap)
             (filter (\<lambda>err. toLowerCase (ve_msg err) \<noteq> ''invalid value'') errors)))
      else Inr ())"

section \<open>Session tokens\<close>

text \<open>
  \<open>encryptSession\<close> and \<open>decryptSession\<close> wrap the token library. Its two functions are
  parameters: \<open>sign payload secret\<close> is the token, and \<open>verify token secret\<close> is the
  decoded payload, or the error the library throws. The secret is the process-wide
  configuration value.
\<close>

definition encryptSession :: "(obj \<Rightarrow> string \<Rightarrow> string) \<Rightarrow> string \<Rightarrow> obj \<Rightarrow> string" where
  "encryptSession sign secret payload = sign payload secret"

definition userNotFound :: error where
  "userNotFound = ParametricError
     [[(''message'', JStr ''User not found.''),
       (''param'', JStr ''user''),
       (''code'', JStr ''RESOURCE_NOT_FOUND'')]]"

text \<open>
  The \<open>try\<close> block covers the call of \<open>verify\<close> and the destructuring of its result,
  which throws on \<open>undefined\<close> and \<open>null\<close> and reads \<open>undefined\<close> from a value that is
  not an object.
\<close>

definition decryptSession ::
  "(jsval \<Rightarrow> string \<Rightarrow> error + jsval) \<Rightarrow> string \<Rightarrow> jsval \<Rightarrow> error + jsval" where
  "decryptSession verify secret jwtToken =
     (case verify jwtToken secret of
        Inl err \<Rightarrow> Inl userNotFound
      | Inr payload \<Rightarrow>
          (case payload of
             JObj claims \<Rightarrow> Inr (getProp claims ''id'')
           | JUndefined \<Rightarrow> Inl userNotFound
           | JNull \<Rightarrow> Inl userNotFound
           | _ \<Rightarrow> Inr JUndefined))"

text \<open>
  A small keyed token scheme, used for the concrete examples: the token is the secret,
  a dot, and the id.
\<close>

definition toy_sign :: "obj \<Rightarrow> string \<Rightarrow> string" where
  "toy_sign payload secret =
     secret @ ''.'' @ (case getProp payload ''id'' of JStr s \<Rightarrow> s | _ \<Rightarrow> [])"

definition toy_verify :: "jsval \<Rightarrow> string \<Rightarrow> error + jsval" where
  "toy_verify token secret =
     (case token of
        JStr t \<Rightarrow>
          if take (length secret + 1) t = secret @ ''.''
          then Inr (JObj [(''id'', JStr (drop (length secret + 1) t)), (''iat'', JNum (Fin 0))])
          else Inl (OtherError ''invalid signature'')
      | _ \<Rightarrow> Inl (OtherError ''jwt must be a string''))"

subsection \<open>The token library\<close>

text \<open>
  Modelled from the spec: a hexadecimal digit, for the text form of a signature in the
  opaque token. The token library is not in the source.
\<close>

definition hexDigit :: "nat \<Rightarrow> char" where
  "hexDigit n = ''0123456789abcdef'' ! n"

text \<open>
  Modelled from the spec: the hexadecimal text of a byte string, two digits for a byte,
  the form in which the token library (not in the source) writes the signature into the
  opaque token.
\<close>

definition hexEncode :: "string \<Rightarrow> string" where
  "hexEncode s =
     concat (map (\<lambda>c. [hexDigit (of_char c div 16), hexDigit (of_char c mod 16)]) s)"

text \<open>
  Modelled from the spec: the text that the token library (not in the source) signs for
  a payload. The payload of a session token is \<open>{id}\<close> with a string id; any other
  payload is signed as the empty object.
\<close>

definition payloadText :: "obj \<Rightarrow> string" where
  "payloadText payload =
     (case getProp payload ''id'' of JStr s \<Rightarrow> CHR ''i'' # s | _ \<Rightarrow> ''o'')"

text \<open>
  Modelled from the spec: \<open>sign\<close> of the token library, which is not in the source.
  "Signs payload with a process-wide secret": the token is the payload text, a dot, and
  the signature of that text under the secret. \<open>mac\<close> is the keyed signing primitive,
  \<open>mac secret text\<close>.
\<close>

definition jwt_sign :: "(string \<Rightarrow> string \<Rightarrow> string) \<Rightarrow> obj \<Rightarrow> string \<Rightarrow> string" where
  "jwt_sign mac payload secret =
     payloadText payload @ ''.'' @ hexEncode (mac secret (payloadText payload))"

text \<open>
  Modelled from the spec: \<open>verify\<close> of the token library, which is not in the source.
  "Verifies signature", and fails on a bad signature or a malformed token: the token is
  split at its last dot, the signature is computed again from the text before the dot
  and compared, and the payload is read back from the text.
\<close>

definition jwt_verify ::
  "(string \<Rightarrow> string \<Rightarrow> string) \<Rightarrow> jsval \<Rightarrow> string \<Rightarrow> error + jsval" where
  "jwt_verify mac token secret =
     (case token of
        JStr t \<Rightarrow>
          (case dropWhile (\<lambda>c. c \<noteq> CHR ''.'') (rev t) of
             [] \<Rightarrow> Inl (OtherError ''jwt malformed'')
           | dot # front \<Rightarrow>
               if rev (takeWhile (\<lambda>c. c \<noteq> CHR ''.'') (rev t))
                    \<noteq> hexEncode (mac secret (rev front))
               then Inl (OtherError ''invalid signature'')
               else (case rev front of
                       [] \<Rightarrow> Inl (OtherError ''jwt malformed'')
                     | tag # s \<Rightarrow>
                         if tag = CHR ''i'' then Inr (JObj [(''id'', JStr s)])
                         else if tag = CHR ''o'' \<and> s = [] then Inr (JObj [])
                         else Inl (OtherError ''jwt malformed'')))
      | _ \<Rightarrow> Inl (OtherError ''jwt must be a string''))"

section \<open>Session resolver and login gate\<close>

definition currentUser ::
  "(jsval \<Rightarrow> string \<Rightarrow> error + jsval) \<Rightarrow> string \<Rightarrow> request \<Rightarrow> error + request" where
  "currentUser verify secret req =
     (if \<not> truthy (session_jwt req) then Inr req
      else (case decryptSession verify secret (session_jwt req) of
              Inr payload \<Rightarrow> Inr (req\<lparr>req_currentUser := Some payload\<rparr>)
            | Inl err \<Rightarrow> Inr req))"

definition isLoggedIn :: "request \<Rightarrow> error + unit" where
  "isLoggedIn req = (case req_currentUser req of None \<Rightarrow> Inl notAllowed | Some u \<Rightarrow> Inr ())"

section \<open>Datastore\<close>

text \<open>
  The four tables, as the model classes declare them; a table is the list of its rows
  and a timestamp is its ISO string. The datastore is a collaborator: \<open>findOne\<close> takes the
  first matching row, \<open>create\<close> appends one, and a failure of the datastore itself (a
  constraint it enforces, a lost connection) is not part of the model.
\<close>

record user_row =
  u_id :: string
  u_name :: string
  u_email :: string
  u_password :: string
  u_createdAt :: string
  u_updatedAt :: string

record role_row =
  r_id :: string
  r_name :: string
  r_createdAt :: string
  r_updatedAt :: string

record community_row =
  c_id :: string
  c_name :: string
  c_slug :: string
  c_ownerId :: string
  c_createdAt :: string
  c_updatedAt :: string

record member_row =
  m_id :: string
  m_communityId :: string
  m_userId :: string
  m_roleId :: string
  m_createdAt :: string
  m_updatedAt :: string

record db =
  users :: "user_row list"
  roles :: "role_row list"
  communities :: "community_row list"
  members :: "member_row list"

definition typeError :: error where
  "typeError = OtherError ''TypeError: Cannot read properties of undefined''"

definition queryError :: error where
  "queryError = OtherError ''Invalid value in query''"

text \<open>
  The argument of \<open>findByPk\<close>: no key gives no row and a string is looked up. A key of
  another type does not fit the string column of the primary key; the model lets the
  query fail on it.
\<close>

fun pkArg :: "jsval \<Rightarrow> error + string option" where
  "pkArg JUndefined = Inr None"
| "pkArg JNull = Inr None"
| "pkArg (JStr s) = Inr (Some s)"
| "pkArg v = Inl queryError"

text \<open>
  A value of a \<open>where\<close> clause on a string column, as the strings a row may have there:
  a string stands for itself, an array of strings for any of them (\<open>IN\<close>), \<open>null\<close>
  matches no row of a column that is never null, and the query layer throws on
  \<open>undefined\<close>. As for \<open>findByPk\<close>, the query fails on a value of another type.
\<close>

fun strings_of :: "jsval list \<Rightarrow> string list option" where
  "strings_of [] = Some []"
| "strings_of (JStr s # vs) = map_option ((#) s) (strings_of vs)"
| "strings_of (v # vs) = None"

fun whereArg :: "jsval \<Rightarrow> error + string list" where
  "whereArg (JStr s) = Inr [s]"
| "whereArg JNull = Inr []"
| "whereArg (JArr vs) = (case strings_of vs of Some ss \<Rightarrow> Inr ss | None \<Rightarrow> Inl queryError)"
| "whereArg v = Inl queryError"

definition User_findByPk :: "db \<Rightarrow> jsval \<Rightarrow> error + user_row option" where
  "User_findByPk d k =
     (case pkArg k of
        Inl e \<Rightarrow> Inl e
      | Inr None \<Rightarrow> Inr None
      | Inr (Some s) \<Rightarrow> Inr (find (\<lambda>u. u_id u = s) (users d)))"

definition Role_findByPk :: "db \<Rightarrow> jsval \<Rightarrow> error + role_row option" where
  "Role_findByPk d k =
     (case pkArg k of
        Inl e \<Rightarrow> Inl e
      | Inr None \<Rightarrow> Inr None
      | Inr (Some s) \<Rightarrow> Inr (find (\<lambda>r. r_id r = s) (roles d)))"

definition Community_findByPk :: "db \<Rightarrow> jsval \<Rightarrow> error + community_row option" where
  "Community_findByPk d k =
     (case pkArg k of
        Inl e \<Rightarrow> Inl e
      | Inr None \<Rightarrow> Inr None
      | Inr (Some s) \<Rightarrow> Inr (find (\<lambda>c. c_id c = s) (communities d)))"

definition getOwner :: "db \<Rightarrow> community_row \<Rightarrow> user_row option" where
  "getOwner d comm = find (\<lambda>u. u_id u = c_ownerId comm) (users d)"

definition Role_findOne_name :: "db \<Rightarrow> string \<Rightarrow> role_row option" where
  "Role_findOne_name d n = find (\<lambda>r. r_name r = n) (roles d)"

definition Member_findOne :: "db \<Rightarrow> jsval \<Rightarrow> jsval \<Rightarrow> jsval \<Rightarrow> error + member_row option" where
  "Member_findOne d userId communityId roleId =
     (case whereArg userId of
        Inl e \<Rightarrow> Inl e
      | Inr u \<Rightarrow>
         (case whereArg communityId of
            Inl e \<Rightarrow> Inl e
          | Inr c \<Rightarrow>
             (case whereArg roleId of
                Inl e \<Rightarrow> Inl e
              | Inr r \<Rightarrow>
                  Inr (find (\<lambda>m. m_userId m \<in> set u \<and> m_communityId m \<in> set c
                                \<and> m_roleId m \<in> set r) (members d)))))"

definition Member_create ::
  "db \<Rightarrow> string \<Rightarrow> jsval \<Rightarrow> jsval \<Rightarrow> jsval \<Rightarrow> string \<Rightarrow> error + (db \<times> member_row)" where
  "Member_create d newId userId communityId roleId now =
     (case (userId, communityId, roleId) of
        (JStr u, JStr c, JStr r) \<Rightarrow>
          (let row = \<lparr>m_id = newId, m_communityId = c, m_userId = u, m_roleId = r,
                      m_createdAt = now, m_updatedAt = now\<rparr>
           in Inr (d\<lparr>members := members d @ [row]\<rparr>, row))
      | _ \<Rightarrow> Inl queryError)"

text \<open>The number of Member rows of a (user, community, role) triple.\<close>

definition triple_count :: "db \<Rightarrow> string \<Rightarrow> string \<Rightarrow> string \<Rightarrow> nat" where
  "triple_count d u c r =
     length (filter (\<lambda>m. m_userId m = u \<and> m_communityId m = c \<and> m_roleId m = r) (members d))"

section \<open>Authorization gates\<close>

definition communityNotFound :: error where
  "communityNotFound = ParametricError
     [[(''param'', JStr ''community''),
       (''message'', JStr ''Community not found.''),
       (''code'', JStr ''RESOURCE_NOT_FOUND'')]]"

definition isCommunityAdmin :: "db \<Rightarrow> request \<Rightarrow> error + unit" where
  "isCommunityAdmin d req =
     (case req_currentUser req of
        None \<Rightarrow> Inl typeError
      | Some userId \<Rightarrow>
         (case User_findByPk d userId of
            Inl e \<Rightarrow> Inl e
          | Inr None \<Rightarrow> Inl notAllowed
          | Inr (Some user) \<Rightarrow>
             (case Community_findByPk d (getProp (req_body req) ''community'') of
                Inl e \<Rightarrow> Inl e
              | Inr None \<Rightarrow> Inl communityNotFound
              | Inr (Some comm) \<Rightarrow>
                 (case getOwner d comm of
                    None \<Rightarrow> Inl typeError
                  | Some commOwner \<Rightarrow>
                      if JStr (u_id commOwner) \<noteq> userId then Inl notAllowed else Inr ()))))"

text \<open>\<open>v.id\<close> on a value read from the body.\<close>

fun idOf :: "jsval \<Rightarrow> error + jsval" where
  "idOf JUndefined = Inl typeError"
| "idOf JNull = Inl typeError"
| "idOf (JObj ob) = Inr (getProp ob ''id'')"
| "idOf v = Inr JUndefined"

text \<open>
  In \<open>isCommunityModerator\<close> the membership query is built from \<open>user.id\<close>,
  \<open>community.id\<close> and \<open>role!.id\<close>, where \<open>community\<close> is the body field, not the row
  \<open>comm\<close>; the object literal is evaluated in that order before the query runs.
\<close>

definition isCommunityModerator :: "db \<Rightarrow> request \<Rightarrow> error + unit" where
  "isCommunityModerator d req =
     (case req_currentUser req of
        None \<Rightarrow> Inl typeError
      | Some userId \<Rightarrow>
         (case User_findByPk d userId of
            Inl e \<Rightarrow> Inl e
          | Inr None \<Rightarrow> Inl notAllowed
          | Inr (Some user) \<Rightarrow>
             (case Community_findByPk d (getProp (req_body req) ''community'') of
                Inl e \<Rightarrow> Inl e
              | Inr None \<Rightarrow> Inl notAllowed
              | Inr (Some comm) \<Rightarrow>
                 (case idOf (getProp (req_body req) ''community'') of
                    Inl e \<Rightarrow> Inl e
                  | Inr communityId \<Rightarrow>
                     (case Role_findOne_name d ''Community Moderator'' of
                        None \<Rightarrow> Inl typeError
                      | Some role \<Rightarrow>
                         (case Member_findOne d (JStr (u_id user)) communityId (JStr (r_id role)) of
                            Inl e \<Rightarrow> Inl e
                          | Inr membership \<Rightarrow>
                             (case getOwner d comm of
                                None \<Rightarrow> Inl typeError
                              | Some commOwner \<Rightarrow>
                                  if JStr (u_id commOwner) \<noteq> userId \<and> membership = None
                                  then Inl notAllowed else Inr ())))))))"

section \<open>Membership\<close>

definition roleNotFound :: error where
  "roleNotFound = ParametricError
     [[(''param'', JStr ''role''),
       (''message'', JStr ''Role not found.''),
       (''code'', JStr ''RESOURCE_NOT_FOUND'')]]"

definition userParamNotFound :: error where
  "userParamNotFound = ParametricError
     [[(''param'', JStr ''user''),
       (''message'', JStr ''User not found.''),
       (''code'', JStr ''RESOURCE_NOT_FOUND'')]]"

definition alreadyMember :: error where
  "alreadyMember = NonParametricError
     [[(''message'', JStr ''User is already added in the community.''),
       (''code'', JStr ''RESOURCE_EXISTS'')]]"

definition memberResponse :: "member_row \<Rightarrow> response" where
  "memberResponse isMember =
     \<lparr>res_status = 200,
      res_json = JObj
        [(''status'', JBool True),
         (''content'', JObj
           [(''data'', JObj
              [(''id'', JStr (m_id isMember)),
               (''community'', JStr (m_communityId isMember)),
               (''user'', JStr (m_userId isMember)),
               (''role'', JStr (m_roleId isMember)),
               (''created_at'', JStr (m_createdAt isMember))])])]\<rparr>"

text \<open>
  \<open>addMember\<close>; \<open>newId\<close> is what the id generator returns and \<open>now\<close> the time of the
  insert. Every error is raised before the table is written.
\<close>

definition addMember :: "db \<Rightarrow> request \<Rightarrow> string \<Rightarrow> string \<Rightarrow> error + (db \<times> response)" where
  "addMember d req newId now =
     (let community = getProp (req_body req) ''community'';
          role = getProp (req_body req) ''role'';
          user = getProp (req_body req) ''user''
      in case Role_findByPk d role of
           Inl e \<Rightarrow> Inl e
         | Inr None \<Rightarrow> Inl roleNotFound
         | Inr (Some roleDoc) \<Rightarrow>
            (case User_findByPk d user of
               Inl e \<Rightarrow> Inl e
             | Inr None \<Rightarrow> Inl userParamNotFound
             | Inr (Some userDoc) \<Rightarrow>
                (case Member_findOne d user community role of
                   Inl e \<Rightarrow> Inl e
                 | Inr (Some isMember) \<Rightarrow> Inl alreadyMember
                 | Inr None \<Rightarrow>
                    (case Member_create d newId user community role now of
                       Inl e \<Rightarrow> Inl e
                     | Inr (d', isMember) \<Rightarrow> Inr (d', memberResponse isMember)))))"

text \<open>
  The route \<open>POST /member\<close>: rule set, validation, session resolver, login gate, owner
  gate, handler; an error of any stage goes to the error dispatcher. The result is the
  datastore after the request and the response.
\<close>

definition post_member ::
  "(jsval \<Rightarrow> string) \<Rightarrow> (string \<Rightarrow> bool) \<Rightarrow> (jsval \<Rightarrow> string \<Rightarrow> error + jsval) \<Rightarrow> string \<Rightarrow>
     db \<Rightarrow> request \<Rightarrow> string \<Rightarrow> string \<Rightarrow> db \<times> response" where
  "post_member str email verify secret d req newId now =
     (case validateRequest (run_chains str email req addMemberVal) of
        Inl e \<Rightarrow> (d, globalErrorHandler e)
      | Inr u0 \<Rightarrow>
         (case currentUser verify secret req of
            Inl e \<Rightarrow> (d, globalErrorHandler e)
          | Inr req1 \<Rightarrow>
             (case isLoggedIn req1 of
                Inl e \<Rightarrow> (d, globalErrorHandler e)
              | Inr u1 \<Rightarrow>
                 (case isCommunityAdmin d req1 of
                    Inl e \<Rightarrow> (d, globalErrorHandler e)
                  | Inr u2 \<Rightarrow>
                     (case addMember d req1 newId now of
                        Inl e \<Rightarrow> (d, globalErrorHandler e)
                      | Inr (d', res) \<Rightarrow> (d', res))))))"

section \<open>Communities\<close>

text \<open>
  The slug is \<open>name.toLowerCase().replace(/[\s\W-]+/g, "-")\<close>. The character class is
  the union of white space, the non-word characters and the hyphen, where the word
  characters are the ASCII letters, the digits and the underscore. \<open>replaceAll\<close> is the
  global replacement of a pattern \<open>[class]+\<close>: scanning from the left, each maximal run of
  class characters becomes the replacement.
\<close>

definition isWord :: "char \<Rightarrow> bool" where
  "isWord c =
     (c \<in> set ''abcdefghijklmnopqrstuvwxyzABCDEFGHIJKLMNOPQRSTUVWXYZ0123456789_'')"

definition isSpace :: "char \<Rightarrow> bool" where
  "isSpace c = (c \<in> set [CHR 0x20, CHR 0x09, CHR 0x0A, CHR 0x0B, CHR 0x0C, CHR 0x0D])"

definition slugClass :: "char \<Rightarrow> bool" where
  "slugClass c = (isSpace c \<or> \<not> isWord c \<or> c = CHR ''-'')"

function replaceAll :: "(char \<Rightarrow> bool) \<Rightarrow> string \<Rightarrow> string \<Rightarrow> string" where
  "replaceAll cls rep [] = []"
| "replaceAll cls rep (c # cs) =
     (if cls c then rep @ replaceAll cls rep (dropWhile cls cs)
      else c # replaceAll cls rep cs)"
  by pat_completeness auto
termination
  by (relation "measure (\<lambda>(cls, rep, s). length s)")
     (auto simp: less_Suc_eq_le length_dropWhile_le)

text \<open>
  \<open>name.toLowerCase()\<close>. On ASCII text it lowers the letters A to Z. For a string with a
  character beyond ASCII the result depends on the Unicode tables of the runtime (a
  character can lower to an ASCII letter followed by a combining mark, or to a plain
  ASCII letter); \<open>lower\<close> is the runtime's function on such strings.
\<close>

definition isAscii :: "char \<Rightarrow> bool" where
  "isAscii c = ((of_char c :: nat) < 128)"

definition lowerCase :: "(string \<Rightarrow> string) \<Rightarrow> string \<Rightarrow> string" where
  "lowerCase lower s = (if list_all isAscii s then toLowerCase s else lower s)"

definition slugify :: "(string \<Rightarrow> string) \<Rightarrow> string \<Rightarrow> string" where
  "slugify lower name = replaceAll slugClass ''-'' (lowerCase lower name)"

text \<open>
  The words of the specification, for comparison: the name lowercased, with every run of
  characters for which \<open>sep\<close> holds collapsed to the single separator. \<open>collapseRuns\<close>
  reads the string once and remembers whether it is inside a run.
\<close>

fun collapseRuns :: "(char \<Rightarrow> bool) \<Rightarrow> char \<Rightarrow> bool \<Rightarrow> string \<Rightarrow> string" where
  "collapseRuns sep s inRun [] = []"
| "collapseRuns sep s inRun (c # cs) =
     (if sep c then (if inRun then collapseRuns sep s True cs
                     else s # collapseRuns sep s True cs)
      else c # collapseRuns sep s False cs)"

definition isAlnum :: "char \<Rightarrow> bool" where
  "isAlnum c =
     (c \<in> set ''abcdefghijklmnopqrstuvwxyzABCDEFGHIJKLMNOPQRSTUVWXYZ0123456789'')"

definition spec_slug :: "(string \<Rightarrow> string) \<Rightarrow> string \<Rightarrow> string" where
  "spec_slug lower name =
     collapseRuns (\<lambda>c. \<not> isAlnum c) CHR ''-'' False (lowerCase lower name)"

definition word_slug :: "(string \<Rightarrow> string) \<Rightarrow> string \<Rightarrow> string" where
  "word_slug lower name =
     collapseRuns (\<lambda>c. \<not> isWord c) CHR ''-'' False (lowerCase lower name)"

fun noDoubleSep :: "string \<Rightarrow> bool" where
  "noDoubleSep (a # b # cs) = (\<not> (a = CHR ''-'' \<and> b = CHR ''-'') \<and> noDoubleSep (b # cs))"
| "noDoubleSep cs = True"

definition slugChars :: "char set" where
  "slugChars = set ''abcdefghijklmnopqrstuvwxyz0123456789_-''"

definition wordOrSep :: "char set" where
  "wordOrSep =
     set ''abcdefghijklmnopqrstuvwxyzABCDEFGHIJKLMNOPQRSTUVWXYZ0123456789_-''"

definition communityResponse :: "community_row \<Rightarrow> response" where
  "communityResponse community =
     \<lparr>res_status = 200,
      res_json = JObj
        [(''status'', JBool True),
         (''content'', JObj
           [(''data'', JObj
              [(''id'', JStr (c_id community)),
               (''name'', JStr (c_name community)),
               (''slug'', JStr (c_slug community)),
               (''owner'', JStr (c_ownerId community)),
               (''created_at'', JStr (c_createdAt community)),
               (''updated_at'', JStr (c_updatedAt community))])])]\<rparr>"

text \<open>
  \<open>createCommunity\<close>; \<open>newId\<close>, \<open>roleId\<close> and \<open>memberId\<close> are what the three calls of the
  id generator return. \<open>userId\<close> is the key under which \<open>user\<close> was found, so
  \<open>u_id user\<close> stands for it in the rows. A name that is not a string has no
  \<open>toLowerCase\<close>.
\<close>

definition createCommunity ::
  "(string \<Rightarrow> string) \<Rightarrow> db \<Rightarrow> request \<Rightarrow> string \<Rightarrow> string \<Rightarrow> string \<Rightarrow> string \<Rightarrow> error + (db \<times> response)" where
  "createCommunity lower d req newId roleId memberId now =
     (case req_currentUser req of
        None \<Rightarrow> Inl typeError
      | Some userId \<Rightarrow>
         (case User_findByPk d userId of
            Inl e \<Rightarrow> Inl e
          | Inr None \<Rightarrow> Inl userParamNotFound
          | Inr (Some user) \<Rightarrow>
             (case getProp (req_body req) ''name'' of
                JStr name \<Rightarrow>
                  (let community = \<lparr>c_id = newId, c_name = name, c_slug = slugify lower name,
                                    c_ownerId = u_id user, c_createdAt = now, c_updatedAt = now\<rparr>;
                       d1 = d\<lparr>communities := communities d @ [community]\<rparr>;
                       (d2, role) =
                         (case Role_findOne_name d1 ''Community Admin'' of
                            Some role \<Rightarrow> (d1, role)
                          | None \<Rightarrow>
                             (let role = \<lparr>r_id = roleId, r_name = ''Community Admin'',
                                          r_createdAt = now, r_updatedAt = now\<rparr>
                              in (d1\<lparr>roles := roles d1 @ [role]\<rparr>, role)));
                       member = \<lparr>m_id = memberId, m_communityId = c_id community,
                                 m_userId = u_id user, m_roleId = r_id role,
                                 m_createdAt = now, m_updatedAt = now\<rparr>;
                       d3 = d2\<lparr>members := members d2 @ [member]\<rparr>
                   in Inr (d3, communityResponse community))
              | _ \<Rightarrow> Inl typeError)))"

text \<open>The route \<open>POST /community\<close>.\<close>

definition post_community ::
  "(string \<Rightarrow> string) \<Rightarrow> (jsval \<Rightarrow> string) \<Rightarrow> (string \<Rightarrow> bool) \<Rightarrow> (jsval \<Rightarrow> string \<Rightarrow> error + jsval) \<Rightarrow> string \<Rightarrow>
     db \<Rightarrow> request \<Rightarrow> string \<Rightarrow> string \<Rightarrow> string \<Rightarrow> string \<Rightarrow> db \<times> response" where
  "post_community lower str email verify secret d req newId roleId memberId now =
     (case currentUser verify secret req of
        Inl e \<Rightarrow> (d, globalErrorHandler e)
      | Inr req1 \<Rightarrow>
         (case isLoggedIn req1 of
            Inl e \<Rightarrow> (d, globalErrorHandler e)
          | Inr u1 \<Rightarrow>
             (case validateRequest (run_chains str email req1 createCommunityVal) of
                Inl e \<Rightarrow> (d, globalErrorHandler e)
              | Inr u2 \<Rightarrow>
                 (case createCommunity lower d req1 newId roleId memberId now of
                    Inl e \<Rightarrow> (d, globalErrorHandler e)
                  | Inr (d', res) \<Rightarrow> (d', res)))))"

section \<open>Role listing\<close>

text \<open>
  \<open>Number(v)\<close>; \<open>prim\<close> is the runtime's conversion of strings (and of objects and arrays,
  which go through their string).
\<close>

fun Number_js :: "(jsval \<Rightarrow> jsnum) \<Rightarrow> jsval \<Rightarrow> jsnum" where
  "Number_js prim JUndefined = NaN"
| "Number_js prim JNull = Fin 0"
| "Number_js prim (JBool b) = Fin (if b then 1 else 0)"
| "Number_js prim (JNum n) = n"
| "Number_js prim v = prim v"

fun num_le :: "jsnum \<Rightarrow> jsnum \<Rightarrow> bool" where
  "num_le NaN y = False"
| "num_le x NaN = False"
| "num_le NInf y = True"
| "num_le x PInf = True"
| "num_le (Fin a) (Fin b) = (a \<le> b)"
| "num_le x y = False"

fun num_sub :: "jsnum \<Rightarrow> jsnum \<Rightarrow> jsnum" where
  "num_sub NaN y = NaN"
| "num_sub x NaN = NaN"
| "num_sub (Fin a) (Fin b) = Fin (a - b)"
| "num_sub PInf PInf = NaN"
| "num_sub NInf NInf = NaN"
| "num_sub PInf y = PInf"
| "num_sub NInf y = NInf"
| "num_sub x PInf = NInf"
| "num_sub x NInf = PInf"

fun num_mul :: "jsnum \<Rightarrow> jsnum \<Rightarrow> jsnum" where
  "num_mul NaN y = NaN"
| "num_mul x NaN = NaN"
| "num_mul (Fin a) (Fin b) = Fin (a * b)"
| "num_mul (Fin a) PInf = (if a = 0 then NaN else if 0 < a then PInf else NInf)"
| "num_mul (Fin a) NInf = (if a = 0 then NaN else if 0 < a then NInf else PInf)"
| "num_mul PInf (Fin b) = (if b = 0 then NaN else if 0 < b then PInf else NInf)"
| "num_mul NInf (Fin b) = (if b = 0 then NaN else if 0 < b then NInf else PInf)"
| "num_mul PInf PInf = PInf"
| "num_mul NInf NInf = PInf"
| "num_mul PInf NInf = NInf"
| "num_mul NInf PInf = NInf"

definition role_json :: "role_row \<Rightarrow> jsval" where
  "role_json r = JObj
     [(''id'', JStr (r_id r)),
      (''name'', JStr (r_name r)),
      (''createdAt'', JStr (r_createdAt r)),
      (''updatedAt'', JStr (r_updatedAt r))]"

text \<open>
  \<open>Role.findAll({limit, offset})\<close>. \<open>skip\<close> is the query layer's reading of an offset
  expression: the number of rows to skip, or \<open>None\<close> when the query layer or the
  datastore rejects the offset, which makes the call throw.
\<close>

definition Role_findAll ::
  "(jsnum \<Rightarrow> nat option) \<Rightarrow> db \<Rightarrow> nat \<Rightarrow> jsnum \<Rightarrow> error + role_row list" where
  "Role_findAll skip d limit offset =
     (case skip offset of
        None \<Rightarrow> Inl queryError
      | Some k \<Rightarrow> Inr (take limit (drop k (roles d))))"

definition Role_count :: "db \<Rightarrow> nat" where
  "Role_count d = length (roles d)"

text \<open>\<open>Number(req.body.page)\<close>, the page number the handler reads.\<close>

definition requestedPage :: "(jsval \<Rightarrow> jsnum) \<Rightarrow> request \<Rightarrow> jsnum" where
  "requestedPage prim req = Number_js prim (getProp (req_body req) ''page'')"

text \<open>\<open>Number(page) <= 1 ? 0 : (Number(page) - 1) * 10\<close>.\<close>

definition pageOffset :: "jsnum \<Rightarrow> jsnum" where
  "pageOffset page =
     (if num_le page (Fin 1) then Fin 0 else num_mul (num_sub page (Fin 1)) (Fin 10))"

text \<open>
  \<open>getAllRole\<close>. \<open>!page\<close> holds for not-a-number and for zero. A throw of \<open>findAll\<close> is
  caught and handed to the error dispatcher.
\<close>

definition getAllRole ::
  "(jsval \<Rightarrow> jsnum) \<Rightarrow> (jsnum \<Rightarrow> nat option) \<Rightarrow> db \<Rightarrow> request \<Rightarrow> error + response" where
  "getAllRole prim skip d req =
     (let page0 = requestedPage prim req;
          page = (if \<not> truthy (JNum page0) then Fin 1 else page0)
      in case Role_findAll skip d 10 (pageOffset page) of
           Inl e \<Rightarrow> Inl e
         | Inr rows \<Rightarrow>
            (let total = Role_count d
             in Inr \<lparr>res_status = 200,
                     res_json = JObj
                       [(''status'', JBool True),
                        (''content'', JObj
                          [(''meta'', JObj
                             [(''total'', JNum (Fin (of_nat total))),
                              (''pages'', JNum (Fin (of_int \<lceil>(of_nat total :: rat) / 10\<rceil>))),
                              (''page'', JNum (if num_le page (Fin 1) then Fin 1 else page))]),
                           (''data'', JArr (map role_json rows))])]\<rparr>))"


text \<open>Reading a response: \<open>v.k\<close> on a JSON value, and the keys of an object.\<close>

definition jfield :: "jsval \<Rightarrow> string \<Rightarrow> jsval" where
  "jfield v k = (case v of JObj ob \<Rightarrow> getProp ob k | _ \<Rightarrow> JUndefined)"

definition jkeys :: "jsval \<Rightarrow> string list" where
  "jkeys v = (case v of JObj ob \<Rightarrow> map fst ob | _ \<Rightarrow> [])"

definition content_of :: "response \<Rightarrow> string \<Rightarrow> jsval" where
  "content_of res k = jfield (jfield (res_json res) ''content'') k"


section \<open>Accounts\<close>

definition User_findOne_email :: "db \<Rightarrow> jsval \<Rightarrow> error + user_row option" where
  "User_findOne_email d email =
     (case whereArg email of
        Inl e \<Rightarrow> Inl e
      | Inr k \<Rightarrow> Inr (find (\<lambda>u. u_email u \<in> set k) (users d)))"

definition User_findOne_id :: "db \<Rightarrow> jsval \<Rightarrow> error + user_row option" where
  "User_findOne_id d ident =
     (case whereArg ident of
        Inl e \<Rightarrow> Inl e
      | Inr k \<Rightarrow> Inr (find (\<lambda>u. u_id u \<in> set k) (users d)))"

text \<open>
  \<open>User.create\<close> with its \<open>BeforeCreate\<close> hook, which replaces the password by its hash;
  \<open>hashPw\<close> is the hashing primitive.
\<close>

definition User_create ::
  "(string \<Rightarrow> string) \<Rightarrow> db \<Rightarrow> string \<Rightarrow> jsval \<Rightarrow> jsval \<Rightarrow> jsval \<Rightarrow> string \<Rightarrow> error + (db \<times> user_row)" where
  "User_create hashPw d newId name email password now =
     (case (name, email, password) of
        (JStr n, JStr e, JStr p) \<Rightarrow>
          (let user = \<lparr>u_id = newId, u_name = n, u_email = e, u_password = hashPw p,
                       u_createdAt = now, u_updatedAt = now\<rparr>
           in Inr (d\<lparr>users := users d @ [user]\<rparr>, user))
      | _ \<Rightarrow> Inl queryError)"

definition emailExists :: error where
  "emailExists = ParametricError
     [[(''param'', JStr ''email''),
       (''message'', JStr ''User with this email address already exists.''),
       (''code'', JStr ''RESOURCE_EXISTS'')]]"

definition invalidCredentials :: error where
  "invalidCredentials = ParametricError
     [[(''param'', JStr ''password''),
       (''message'', JStr ''The credentials you provided are invalid.''),
       (''code'', JStr ''INVALID_CREDENTIALS'')]]"

definition passwordNoMatch :: error where
  "passwordNoMatch = ParametricError
     [[(''param'', JStr ''password''),
       (''message'', JStr ''Password does not match.''),
       (''code'', JStr ''INVALID_INPUT'')]]"

definition notSignedIn :: error where
  "notSignedIn = NonParametricError
     [[(''message'', JStr ''You need to sign in to proceed.''),
       (''code'', JStr ''NOT_SIGNEDIN'')]]"

definition user_data :: "user_row \<Rightarrow> jsval" where
  "user_data user = JObj
     [(''id'', JStr (u_id user)),
      (''name'', JStr (u_name user)),
      (''email'', JStr (u_email user)),
      (''created_at'', JStr (u_createdAt user))]"

definition sessionResponse :: "user_row \<Rightarrow> string \<Rightarrow> response" where
  "sessionResponse user encSession =
     \<lparr>res_status = 200,
      res_json = JObj
        [(''status'', JBool True),
         (''content'', JObj
           [(''data'', user_data user),
            (''meta'', JObj [(''access_token'', JStr encSession)])])]\<rparr>"

definition signupUser ::
  "(obj \<Rightarrow> string \<Rightarrow> string) \<Rightarrow> string \<Rightarrow> (string \<Rightarrow> string) \<Rightarrow>
     db \<Rightarrow> request \<Rightarrow> string \<Rightarrow> string \<Rightarrow> error + (db \<times> request \<times> response)" where
  "signupUser sign secret hashPw d req newId now =
     (let name = getProp (req_body req) ''name'';
          email = getProp (req_body req) ''email'';
          password = getProp (req_body req) ''password''
      in case User_findOne_email d email of
           Inl e \<Rightarrow> Inl e
         | Inr (Some existingUser) \<Rightarrow> Inl emailExists
         | Inr None \<Rightarrow>
            (case User_create hashPw d newId name email password now of
               Inl e \<Rightarrow> Inl e
             | Inr (d', user) \<Rightarrow>
                (let encSession = encryptSession sign secret [(''id'', JStr (u_id user))]
                 in Inr (d', req\<lparr>req_session := Some [(''jwt'', JStr encSession)]\<rparr>,
                         sessionResponse user encSession))))"

text \<open>
  \<open>comparePasswords\<close>; \<open>compare\<close> is the hashing primitive's comparison, \<open>None\<close> when it
  throws.
\<close>

definition comparePasswords ::
  "(jsval \<Rightarrow> string \<Rightarrow> bool option) \<Rightarrow> jsval \<Rightarrow> string \<Rightarrow> error + bool" where
  "comparePasswords compare inputPassword hashedPassword =
     (case compare inputPassword hashedPassword of
        Some match \<Rightarrow> Inr match
      | None \<Rightarrow> Inl passwordNoMatch)"

definition signinUser ::
  "(obj \<Rightarrow> string \<Rightarrow> string) \<Rightarrow> string \<Rightarrow> (jsval \<Rightarrow> string \<Rightarrow> bool option) \<Rightarrow>
     db \<Rightarrow> request \<Rightarrow> error + (request \<times> response)" where
  "signinUser sign secret compare d req =
     (let email = getProp (req_body req) ''email'';
          password = getProp (req_body req) ''password''
      in case User_findOne_email d email of
           Inl e \<Rightarrow> Inl e
         | Inr None \<Rightarrow> Inl userParamNotFound
         | Inr (Some user) \<Rightarrow>
            (case comparePasswords compare password (u_password user) of
               Inl e \<Rightarrow> Inl e
             | Inr isMatched \<Rightarrow>
                 if \<not> isMatched then Inl invalidCredentials
                 else (let encSession = encryptSession sign secret [(''id'', JStr (u_id user))]
                       in Inr (req\<lparr>req_session := Some [(''jwt'', JStr encSession)]\<rparr>,
                               sessionResponse user encSession))))"

definition getMe :: "db \<Rightarrow> request \<Rightarrow> error + response" where
  "getMe d req =
     (case req_currentUser req of
        None \<Rightarrow> Inl notSignedIn
      | Some ident \<Rightarrow>
          if \<not> truthy ident then Inl notSignedIn
          else (case User_findOne_id d ident of
                  Inl e \<Rightarrow> Inl e
                | Inr None \<Rightarrow> Inl userParamNotFound
                | Inr (Some user) \<Rightarrow>
                    Inr \<lparr>res_status = 200,
                         res_json = JObj
                           [(''status'', JBool True),
                            (''content'', JObj [(''data'', user_data user)])]\<rparr>))"

text \<open>Two datastores that differ at most in the stored password hashes.\<close>

definition forgetPasswords :: "db \<Rightarrow> db" where
  "forgetPasswords d = d\<lparr>users := map (\<lambda>u. u\<lparr>u_password := []\<rparr>) (users d)\<rparr>"

section \<open>Example data\<close>

text \<open>Concrete collaborators and requests, for the examples that follow.\<close>

definition ex_str :: "jsval \<Rightarrow> string" where
  "ex_str v = ''[object Object]''"

definition ex_lower :: "string \<Rightarrow> string" where
  "ex_lower s = toLowerCase s"

definition ex_email :: "string \<Rightarrow> bool" where
  "ex_email s = (CHR ''@'' \<in> set s)"

definition req_shortName :: request where
  "req_shortName = \<lparr>req_body = [(''name'', JStr ''A'')], req_params = [], req_query = [],
      req_session = None, req_currentUser = None\<rparr>"

definition req_forged :: request where
  "req_forged = \<lparr>req_body = [], req_params = [], req_query = [],
      req_session = Some [(''jwt'', JStr ''forged'')], req_currentUser = None\<rparr>"

definition ex_db :: db where
  "ex_db = \<lparr>users =
      [\<lparr>u_id = ''u1'', u_name = ''Ann'', u_email = ''ann@example.com'', u_password = ''h1'',
        u_createdAt = ''t0'', u_updatedAt = ''t0''\<rparr>,
       \<lparr>u_id = ''u2'', u_name = ''Bob'', u_email = ''bob@example.com'', u_password = ''h2'',
        u_createdAt = ''t0'', u_updatedAt = ''t0''\<rparr>],
     roles =
      [\<lparr>r_id = ''r1'', r_name = ''Community Moderator'', r_createdAt = ''t0'', r_updatedAt = ''t0''\<rparr>],
     communities =
      [\<lparr>c_id = ''c1'', c_name = ''Chess'', c_slug = ''chess'', c_ownerId = ''u1'',
        c_createdAt = ''t0'', c_updatedAt = ''t0''\<rparr>],
     members =
      [\<lparr>m_id = ''m1'', m_communityId = ''c1'', m_userId = ''u2'', m_roleId = ''r1'',
        m_createdAt = ''t0'', m_updatedAt = ''t0''\<rparr>]\<rparr>"

definition req_bob_nofields :: request where
  "req_bob_nofields = \<lparr>req_body = [(''community'', JStr ''c1'')], req_params = [], req_query = [],
      req_session = Some [(''jwt'', JStr ''k.u2'')], req_currentUser = None\<rparr>"

definition req_bob_add :: request where
  "req_bob_add = \<lparr>req_body = [(''community'', JStr ''c1''), (''user'', JStr ''u2''), (''role'', JStr ''r1'')],
      req_params = [], req_query = [],
      req_session = Some [(''jwt'', JStr ''k.u2'')], req_currentUser = None\<rparr>"

definition req_bob_moderates :: request where
  "req_bob_moderates = \<lparr>req_body = [(''community'', JStr ''c1'')], req_params = [(''id'', JStr ''u2'')], req_query = [],
      req_session = Some [(''jwt'', JStr ''k.u2'')], req_currentUser = Some (JStr ''u2'')\<rparr>"



definition db_after :: "db \<Rightarrow> error + (db \<times> response) \<Rightarrow> db" where
  "db_after d r = (case r of Inl e \<Rightarrow> d | Inr (d', res) \<Rightarrow> d')"

definition req_ann_add :: request where
  "req_ann_add = \<lparr>req_body = [(''community'', JStr ''c1''), (''user'', JStr ''u1''), (''role'', JStr ''r1'')],
      req_params = [], req_query = [],
      req_session = Some [(''jwt'', JStr ''k.u1'')], req_currentUser = Some (JStr ''u1'')\<rparr>"

definition req_ann_underscore :: request where
  "req_ann_underscore = \<lparr>req_body = [(''name'', JStr ''a_b'')], req_params = [], req_query = [],
      req_session = Some [(''jwt'', JStr ''k.u1'')], req_currentUser = Some (JStr ''u1'')\<rparr>"

definition req_ann_hello :: request where
  "req_ann_hello = \<lparr>req_body = [(''name'', JStr ''Hello,  World!'')], req_params = [], req_query = [],
      req_session = Some [(''jwt'', JStr ''k.u1'')], req_currentUser = Some (JStr ''u1'')\<rparr>"






definition ex_hash :: "string \<Rightarrow> string" where
  "ex_hash p = ''h'' @ p"

definition ex_compare :: "jsval \<Rightarrow> string \<Rightarrow> bool option" where
  "ex_compare pw h = (case pw of JStr p \<Rightarrow> Some (h = ''h'' @ p) | _ \<Rightarrow> None)"

definition req_signup :: request where
  "req_signup = \<lparr>req_body = [(''name'', JStr ''Cy''), (''email'', JStr ''cy@example.com''),
                               (''password'', JStr ''pw'')],
      req_params = [], req_query = [], req_session = None, req_currentUser = None\<rparr>"

definition ex_accounts :: db where
  "ex_accounts = \<lparr>users =
      [\<lparr>u_id = ''u7'', u_name = ''Dee'', u_email = ''dee@example.com'',
        u_password = ''hsecret'', u_createdAt = ''t0'', u_updatedAt = ''t0''\<rparr>],
     roles = [], communities = [], members = []\<rparr>"

definition req_signin :: request where
  "req_signin = \<lparr>req_body = [(''email'', JStr ''dee@example.com''),
                               (''password'', JStr ''secret'')],
      req_params = [], req_query = [], req_session = None, req_currentUser = None\<rparr>"

definition req_signin_array :: request where
  "req_signin_array = \<lparr>req_body = [(''email'', JArr [JStr ''dee@example.com'']),
                                     (''password'', JStr ''secret'')],
      req_params = [], req_query = [], req_session = None, req_currentUser = None\<rparr>"

definition req_me :: request where
  "req_me = \<lparr>req_body = [], req_params = [], req_query = [],
      req_session = Some [(''jwt'', JStr ''k.u7'')], req_currentUser = Some (JStr ''u7'')\<rparr>"

section \<open>Properties\<close>

subsection \<open>Request validation\<close>

lemma getProp_setProp_same: "getProp (setProp ob k v) k = v"
  by (simp add: getProp_def setProp_def update_conv')

lemma renameKeys_code: "getProp (renameKeys ob km) ''code'' = JStr ''INVALID_INPUT''"
  by (simp add: renameKeys_def getProp_setProp_same)

lemma validateRequest_codes:
  "validateRequest errors = Inl err \<Longrightarrow>
     \<exists>errs. err = ParametricError errs
        \<and> list_all (\<lambda>e. getProp e ''code'' = JStr ''INVALID_INPUT'') errs"
  by (auto simp: validateRequest_def list_all_iff renameKeys_code split: if_splits)

lemma serialize_code:
  "list_all (\<lambda>e. getProp e ''code'' = JStr ''INVALID_INPUT'') errs \<Longrightarrow>
   list_all (\<lambda>s. getProp s ''code'' = JStr ''INVALID_INPUT'')
     (serializeErrors (ParametricError errs))"
  by (auto simp: list_all_iff getProp_def)

text \<open>
  Claim C10. Whatever object and key mapping \<open>renameKeys\<close> is given, the object it returns
  has code \<open>INVALID_INPUT\<close>; and for every rule set and request, when \<open>validateRequest\<close>
  raises, it raises a field error batch in which every error, and every serialized error,
  has code \<open>INVALID_INPUT\<close>, whichever validator produced it.
\<close>

theorem validator_errors_code:
  "getProp (renameKeys ob km) ''code'' = JStr ''INVALID_INPUT'' \<and>
   (validateRequest (run_chains str email req chs) = Inl err \<longrightarrow>
      (\<exists>errs. err = ParametricError errs
          \<and> list_all (\<lambda>e. getProp e ''code'' = JStr ''INVALID_INPUT'') errs)
      \<and> list_all (\<lambda>s. getProp s ''code'' = JStr ''INVALID_INPUT'') (serializeErrors err))"
  using validateRequest_codes serialize_code renameKeys_code by blast

lemma shortName_rejected:
  "validateRequest (run_chains ex_str ex_email req_shortName createRoleVal) =
     Inl (ParametricError
       [[(''type'', JStr ''field''), (''value'', JStr ''A''),
         (''message'', JStr ''Name should be at least 2 characters.''),
         (''param'', JStr ''name''), (''location'', JStr ''body''),
         (''code'', JStr ''INVALID_INPUT'')]])"
  by (simp add: validateRequest_def run_chains_def run_chain_def createRoleVal_def
      req_shortName_def withMessage_def isLength_def isString_def vexists_def body_def
      addValidator_def field_value_def getProp_def renameKeys_def setProp_def keyMap_def
      newKey_def verror_obj_def location_name_def toLowerCase_def toLowerChar_def)

text \<open>
  Example for C10: a role name of one character fails the length rule, and the one error
  raised has code \<open>INVALID_INPUT\<close>.
\<close>

theorem validator_errors_code_witness:
  "validateRequest (run_chains ex_str ex_email req_shortName createRoleVal) =
     Inl (ParametricError
       [[(''type'', JStr ''field''), (''value'', JStr ''A''),
         (''message'', JStr ''Name should be at least 2 characters.''),
         (''param'', JStr ''name''), (''location'', JStr ''body''),
         (''code'', JStr ''INVALID_INPUT'')]])
   \<and> list_all (\<lambda>s. getProp s ''code'' = JStr ''INVALID_INPUT'')
        (serializeErrors (ParametricError
       [[(''type'', JStr ''field''), (''value'', JStr ''A''),
         (''message'', JStr ''Name should be at least 2 characters.''),
         (''param'', JStr ''name''), (''location'', JStr ''body''),
         (''code'', JStr ''INVALID_INPUT'')]]))"
proof -
  note h = shortName_rejected
  from validator_errors_code [of "[]" "[]" ex_str ex_email req_shortName createRoleVal] h
  have "list_all (\<lambda>s. getProp s ''code'' = JStr ''INVALID_INPUT'')
        (serializeErrors (ParametricError
       [[(''type'', JStr ''field''), (''value'', JStr ''A''),
         (''message'', JStr ''Name should be at least 2 characters.''),
         (''param'', JStr ''name''), (''location'', JStr ''body''),
         (''code'', JStr ''INVALID_INPUT'')]]))"
    by blast
  with h show ?thesis by blast
qed

subsection \<open>Session tokens and the session resolver\<close>

text \<open>
  Claim C3. The session resolver never rejects: for every request it continues with some
  request \<open>req'\<close>. Without a token in the session \<open>req'\<close> is the request unchanged; when
  the token fails to decode the error is swallowed and \<open>req'\<close> is the request unchanged;
  when the token decodes, the decoded identity is attached; and the identity of the
  request changes only when decoding succeeds.
\<close>

theorem currentUser_never_rejects:
  "\<exists>req'. currentUser verify secret req = Inr req'
     \<and> (\<not> truthy (session_jwt req) \<longrightarrow> req' = req)
     \<and> (\<forall>err. decryptSession verify secret (session_jwt req) = Inl err \<longrightarrow> req' = req)
     \<and> (\<forall>ident. truthy (session_jwt req)
            \<and> decryptSession verify secret (session_jwt req) = Inr ident
          \<longrightarrow> req' = req\<lparr>req_currentUser := Some ident\<rparr>)
     \<and> (req_currentUser req' \<noteq> req_currentUser req
          \<longrightarrow> (\<exists>ident. decryptSession verify secret (session_jwt req) = Inr ident))"
  by (cases "decryptSession verify secret (session_jwt req)") (auto simp: currentUser_def)

lemma forged_fails:
  "decryptSession toy_verify ''k'' (session_jwt req_forged) = Inl userNotFound"
  by (simp add: decryptSession_def toy_verify_def session_jwt_def req_forged_def getProp_def)

text \<open>
  Example for C3: a session that holds a forged token; the resolver continues with the
  request as it came, without identity.
\<close>

theorem currentUser_never_rejects_witness:
  "truthy (session_jwt req_forged)
   \<and> decryptSession toy_verify ''k'' (session_jwt req_forged) = Inl userNotFound
   \<and> currentUser toy_verify ''k'' req_forged = Inr req_forged"
proof -
  have t: "truthy (session_jwt req_forged)"
    by (simp add: session_jwt_def req_forged_def getProp_def)
  from currentUser_never_rejects [of toy_verify "''k''" req_forged] forged_fails t
  show ?thesis by auto
qed

text \<open>
  Claim C4, as the code has it. For every token that the library fails to verify,
  \<open>decryptSession\<close> raises the field error with param \<open>user\<close>, message
  \<open>User not found.\<close> and code \<open>RESOURCE_NOT_FOUND\<close>: a \<open>ParametricError\<close>, not a general
  error, whose serialization carries the param field.
\<close>

theorem decode_failure_error:
  "verify token secret = Inl e \<Longrightarrow>
     decryptSession verify secret token = Inl userNotFound
     \<and> serializeErrors userNotFound =
         [[(''param'', JStr ''user''), (''message'', JStr ''User not found.''),
           (''code'', JStr ''RESOURCE_NOT_FOUND'')]]
     \<and> \<not> is_general userNotFound \<and> carries_param userNotFound"
  by (simp add: decryptSession_def userNotFound_def getProp_def is_general_def
      carries_param_def)

text \<open>Example for C4: the forged token.\<close>

theorem decode_failure_error_witness:
  "toy_verify (JStr ''forged'') ''k'' = Inl (OtherError ''invalid signature'')
   \<and> decryptSession toy_verify ''k'' (JStr ''forged'') = Inl userNotFound"
proof -
  have h: "toy_verify (JStr ''forged'') ''k'' = Inl (OtherError ''invalid signature'')"
    by (simp add: toy_verify_def)
  from decode_failure_error [of toy_verify "JStr ''forged''" "''k''", OF h] h
  show ?thesis by simp
qed

text \<open>
  C4 as stated fails: on the forged token the error raised is not a general error, and
  its serialization has a param field.
\<close>

theorem decode_failure_general_counterexample:
  "decryptSession toy_verify ''k'' (JStr ''forged'') = Inl userNotFound
   \<and> \<not> is_general userNotFound \<and> carries_param userNotFound"
  by (simp add: decryptSession_def toy_verify_def userNotFound_def getProp_def
      is_general_def carries_param_def)

lemma hexDigit_no_dot: "n < 16 \<Longrightarrow> hexDigit n \<noteq> CHR ''.''"
proof -
  assume "n < 16"
  then have "hexDigit n \<in> set ''0123456789abcdef''"
    unfolding hexDigit_def by (intro nth_mem) simp
  then show ?thesis by auto
qed

lemma hexEncode_no_dot: "CHR ''.'' \<notin> set (hexEncode s)"
proof
  assume "CHR ''.'' \<in> set (hexEncode s)"
  then obtain c where
    "CHR ''.'' = hexDigit (of_char c div 16) \<or> CHR ''.'' = hexDigit (of_char c mod 16)"
    by (auto simp: hexEncode_def)
  moreover have "(of_char c :: nat) div 16 < 16"
    using nat_of_char_less_256 [of c] by (simp add: less_mult_imp_div_less)
  moreover have "(of_char c :: nat) mod 16 < 16" by simp
  ultimately show False using hexDigit_no_dot by metis
qed

lemma split_at:
  "\<forall>x\<in>set xs. P x \<Longrightarrow> \<not> P y \<Longrightarrow>
     takeWhile P (xs @ y # ys) = xs \<and> dropWhile P (xs @ y # ys) = y # ys"
  by (induction xs) auto

lemma jwt_roundtrip:
  "jwt_verify mac (JStr (jwt_sign mac [(''id'', JStr uid)] secret)) secret
     = Inr (JObj [(''id'', JStr uid)])"
proof -
  let ?text = "CHR ''i'' # uid"
  let ?sig = "hexEncode (mac secret ?text)"
  have "\<forall>x\<in>set (rev ?sig). x \<noteq> CHR ''.''"
    using hexEncode_no_dot [of "mac secret ?text"] by auto
  then have sp:
    "takeWhile (\<lambda>c. c \<noteq> CHR ''.'') (rev ?sig @ CHR ''.'' # rev ?text) = rev ?sig"
    "dropWhile (\<lambda>c. c \<noteq> CHR ''.'') (rev ?sig @ CHR ''.'' # rev ?text) = CHR ''.'' # rev ?text"
    using split_at [of "rev ?sig" "\<lambda>c. c \<noteq> CHR ''.''" "CHR ''.''" "rev ?text"] by simp_all
  have t: "rev (?text @ ''.'' @ ?sig) = rev ?sig @ CHR ''.'' # rev ?text" by simp
  have sg: "jwt_sign mac [(''id'', JStr uid)] secret = ?text @ ''.'' @ ?sig"
    by (simp add: jwt_sign_def payloadText_def getProp_def)
  show ?thesis
    unfolding sg jwt_verify_def jsval.case t sp list.case
    by simp
qed

lemma jwt_rejects_other_signature:
  assumes "CHR ''.'' \<notin> set signature" and "signature \<noteq> hexEncode (mac secret text)"
  shows "jwt_verify mac (JStr (text @ ''.'' @ signature)) secret
           = Inl (OtherError ''invalid signature'')"
proof -
  have "\<forall>x\<in>set (rev signature). x \<noteq> CHR ''.''" using assms(1) by auto
  then have sp:
    "takeWhile (\<lambda>c. c \<noteq> CHR ''.'') (rev signature @ CHR ''.'' # rev text) = rev signature"
    "dropWhile (\<lambda>c. c \<noteq> CHR ''.'') (rev signature @ CHR ''.'' # rev text)
       = CHR ''.'' # rev text"
    using split_at [of "rev signature" "\<lambda>c. c \<noteq> CHR ''.''" "CHR ''.''" "rev text"]
    by simp_all
  have t: "rev (text @ ''.'' @ signature) = rev signature @ CHR ''.'' # rev text" by simp
  show ?thesis
    unfolding jwt_verify_def jsval.case t sp list.case using assms(2) by simp
qed

text \<open>
  Claim C5. For every user id, every secret and every signing primitive: the token that
  \<open>encryptSession\<close> makes for \<open>{id}\<close>, decoded by \<open>decryptSession\<close> under the same
  secret, gives back the id.
\<close>

theorem session_roundtrip:
  "decryptSession (jwt_verify mac) secret
       (JStr (encryptSession (jwt_sign mac) secret [(''id'', JStr uid)]))
     = Inr (JStr uid)"
  by (simp add: decryptSession_def encryptSession_def jwt_roundtrip getProp_def)

subsection \<open>The owner gate on \<open>POST /member\<close>\<close>

lemma non_owner_gate:
  assumes "req_currentUser req1 = Some (JStr uid)"
    and "Community_findByPk d (getProp (req_body req1) ''community'') = Inr (Some comm)"
    and "getOwner d comm = Some owner"
    and "u_id owner \<noteq> uid"
  shows "isCommunityAdmin d req1 = Inl notAllowed"
  using assms by (auto simp: isCommunityAdmin_def User_findByPk_def split: option.splits)

lemma authenticated_user:
  assumes "truthy (session_jwt req)"
    and "decryptSession verify secret (session_jwt req) = Inr ident"
  shows "currentUser verify secret req = Inr (req\<lparr>req_currentUser := Some ident\<rparr>)"
  using assms by (simp add: currentUser_def)

lemma renamed_fields:
  "getProp (renameKeys (verror_obj x) keyMap) ''param'' = JStr (ve_path x)"
  "getProp (renameKeys (verror_obj x) keyMap) ''message'' = JStr (ve_msg x)"
  "getProp (renameKeys (verror_obj x) keyMap) ''code'' = JStr ''INVALID_INPUT''"
  by (simp_all add: renameKeys_def verror_obj_def keyMap_def newKey_def setProp_def getProp_def)

text \<open>
  Claim C1, as the code has it. Take a \<open>POST /member\<close> request whose session token
  decodes to the user id \<open>uid\<close> and whose body names an existing community with an owner
  other than \<open>uid\<close>. The datastore is unchanged, so no Member row is created, and the
  answer has status 400: when the body passes the add-member rule set, it is the general
  error with code \<open>NOT_ALLOWED_ACCESS\<close>; when it does not, validation answers first,
  with one field error of code \<open>INVALID_INPUT\<close> for every violated rule, carrying the
  rule's field and message.
\<close>

theorem non_owner_add_member_rejected:
  assumes tok: "truthy (session_jwt req)"
    and auth: "decryptSession verify secret (session_jwt req) = Inr (JStr uid)"
    and comm: "Community_findByPk d (getProp (req_body req) ''community'') = Inr (Some comm)"
    and owner: "getOwner d comm = Some owner"
    and neq: "u_id owner \<noteq> uid"
  shows "post_member str email verify secret d req newId now =
     (d, if run_chains str email req addMemberVal = []
         then \<lparr>res_status = 400,
               res_json = JObj [(''status'', JBool False),
                 (''errors'', JArr [JObj
                    [(''message'', JStr ''You are not authorized to perform this action.''),
                     (''code'', JStr ''NOT_ALLOWED_ACCESS'')]])]\<rparr>
         else \<lparr>res_status = 400,
               res_json = JObj [(''status'', JBool False),
                 (''errors'', JArr (map
                    (\<lambda>e. JObj [(''param'', JStr (ve_path e)), (''message'', JStr (ve_msg e)),
                               (''code'', JStr ''INVALID_INPUT'')])
                    (filter (\<lambda>e. toLowerCase (ve_msg e) \<noteq> ''invalid value'')
                       (run_chains str email req addMemberVal))))]\<rparr>)"
proof -
  let ?req1 = "req\<lparr>req_currentUser := Some (JStr uid)\<rparr>"
  have cu: "currentUser verify secret req = Inr ?req1"
    using tok auth by (rule authenticated_user)
  have gate: "isCommunityAdmin d ?req1 = Inl notAllowed"
    using comm owner neq
    by (intro non_owner_gate [where uid = uid and comm = comm and owner = owner]) simp_all
  have li: "isLoggedIn ?req1 = Inr ()" by (simp add: isLoggedIn_def)
  show ?thesis
  proof (cases "run_chains str email req addMemberVal = []")
    case True
    then have "validateRequest (run_chains str email req addMemberVal) = Inr ()"
      by (simp add: validateRequest_def)
    with True cu li gate show ?thesis
      by (simp add: post_member_def notAllowed_def getProp_def)
  next
    case False
    then have "validateRequest (run_chains str email req addMemberVal) =
        Inl (ParametricError (map (\<lambda>err. renameKeys (verror_obj err) keyMap)
             (filter (\<lambda>err. toLowerCase (ve_msg err) \<noteq> ''invalid value'')
                (run_chains str email req addMemberVal))))"
      by (simp add: validateRequest_def)
    with False show ?thesis
      by (simp add: post_member_def renamed_fields comp_def)
  qed
qed

lemma bob_is_authenticated:
  "truthy (session_jwt req_bob_nofields)
   \<and> decryptSession toy_verify ''k'' (session_jwt req_bob_nofields) = Inr (JStr ''u2'')"
  by (simp add: session_jwt_def req_bob_nofields_def getProp_def decryptSession_def toy_verify_def)

lemma chess_exists:
  "Community_findByPk ex_db (JStr ''c1'') =
     Inr (Some \<lparr>c_id = ''c1'', c_name = ''Chess'', c_slug = ''chess'', c_ownerId = ''u1'',
        c_createdAt = ''t0'', c_updatedAt = ''t0''\<rparr>)"
  by (simp add: Community_findByPk_def ex_db_def)

lemma chess_owner:
  "getOwner ex_db \<lparr>c_id = ''c1'', c_name = ''Chess'', c_slug = ''chess'', c_ownerId = ''u1'',
        c_createdAt = ''t0'', c_updatedAt = ''t0''\<rparr> =
     Some \<lparr>u_id = ''u1'', u_name = ''Ann'', u_email = ''ann@example.com'', u_password = ''h1'',
        u_createdAt = ''t0'', u_updatedAt = ''t0''\<rparr>"
  by (simp add: getOwner_def ex_db_def)

text \<open>
  C1 as stated fails: Bob is signed in, the body names the existing community \<open>c1\<close>,
  whose owner is Ann, but the body has no \<open>user\<close> and no \<open>role\<close>. The rule set runs before
  the gates, and the response carries the four field errors of code \<open>INVALID_INPUT\<close>,
  not the general error of code \<open>NOT_ALLOWED_ACCESS\<close>.
\<close>

theorem non_owner_general_error_counterexample:
  "truthy (session_jwt req_bob_nofields)
   \<and> decryptSession toy_verify ''k'' (session_jwt req_bob_nofields) = Inr (JStr ''u2'')
   \<and> Community_findByPk ex_db (getProp (req_body req_bob_nofields) ''community'') =
       Inr (Some \<lparr>c_id = ''c1'', c_name = ''Chess'', c_slug = ''chess'', c_ownerId = ''u1'',
        c_createdAt = ''t0'', c_updatedAt = ''t0''\<rparr>)
   \<and> getOwner ex_db \<lparr>c_id = ''c1'', c_name = ''Chess'', c_slug = ''chess'', c_ownerId = ''u1'',
        c_createdAt = ''t0'', c_updatedAt = ''t0''\<rparr> =
       Some \<lparr>u_id = ''u1'', u_name = ''Ann'', u_email = ''ann@example.com'', u_password = ''h1'',
        u_createdAt = ''t0'', u_updatedAt = ''t0''\<rparr>
   \<and> ''u1'' \<noteq> ''u2''
   \<and> snd (post_member ex_str ex_email toy_verify ''k'' ex_db req_bob_nofields ''m2'' ''t1'') =
       \<lparr>res_status = 400,
        res_json = JObj [(''status'', JBool False),
          (''errors'', JArr
            [JObj [(''param'', JStr ''user''), (''message'', JStr ''User ID must be provided.''),
                   (''code'', JStr ''INVALID_INPUT'')],
             JObj [(''param'', JStr ''user''), (''message'', JStr ''User ID must be a string.''),
                   (''code'', JStr ''INVALID_INPUT'')],
             JObj [(''param'', JStr ''role''), (''message'', JStr ''Role ID must be provided.''),
                   (''code'', JStr ''INVALID_INPUT'')],
             JObj [(''param'', JStr ''role''), (''message'', JStr ''Role ID must be a string.''),
                   (''code'', JStr ''INVALID_INPUT'')]])]\<rparr>
   \<and> snd (post_member ex_str ex_email toy_verify ''k'' ex_db req_bob_nofields ''m2'' ''t1'') \<noteq>
       globalErrorHandler notAllowed"
proof -
  have b: "getProp (req_body req_bob_nofields) ''community'' = JStr ''c1''"
    by (simp add: req_bob_nofields_def getProp_def)
  have r: "run_chains ex_str ex_email req_bob_nofields addMemberVal =
     [\<lparr>ve_value = JUndefined, ve_msg = ''User ID must be provided.'', ve_path = ''user'', ve_location = Body\<rparr>,
      \<lparr>ve_value = JUndefined, ve_msg = ''User ID must be a string.'', ve_path = ''user'', ve_location = Body\<rparr>,
      \<lparr>ve_value = JUndefined, ve_msg = ''Role ID must be provided.'', ve_path = ''role'', ve_location = Body\<rparr>,
      \<lparr>ve_value = JUndefined, ve_msg = ''Role ID must be a string.'', ve_path = ''role'', ve_location = Body\<rparr>]"
    by (simp add: run_chains_def run_chain_def addMemberVal_def req_bob_nofields_def
        withMessage_def isString_def existsFalsy_def body_def addValidator_def
        field_value_def getProp_def)
  have p: "snd (post_member ex_str ex_email toy_verify ''k'' ex_db req_bob_nofields ''m2'' ''t1'') =
       \<lparr>res_status = 400,
        res_json = JObj [(''status'', JBool False),
          (''errors'', JArr
            [JObj [(''param'', JStr ''user''), (''message'', JStr ''User ID must be provided.''),
                   (''code'', JStr ''INVALID_INPUT'')],
             JObj [(''param'', JStr ''user''), (''message'', JStr ''User ID must be a string.''),
                   (''code'', JStr ''INVALID_INPUT'')],
             JObj [(''param'', JStr ''role''), (''message'', JStr ''Role ID must be provided.''),
                   (''code'', JStr ''INVALID_INPUT'')],
             JObj [(''param'', JStr ''role''), (''message'', JStr ''Role ID must be a string.''),
                   (''code'', JStr ''INVALID_INPUT'')]])]\<rparr>"
    unfolding post_member_def r
    by (simp add: validateRequest_def renameKeys_def setProp_def keyMap_def
        newKey_def verror_obj_def location_name_def toLowerCase_def toLowerChar_def getProp_def)
  show ?thesis
    unfolding p b using bob_is_authenticated chess_exists chess_owner
    by (simp add: notAllowed_def getProp_def)
qed

text \<open>
  Example for C1: Bob, with a complete body, asks to add himself to Ann's community.
\<close>

theorem non_owner_add_member_rejected_witness:
  "truthy (session_jwt req_bob_add)
   \<and> decryptSession toy_verify ''k'' (session_jwt req_bob_add) = Inr (JStr ''u2'')
   \<and> run_chains ex_str ex_email req_bob_add addMemberVal = []
   \<and> post_member ex_str ex_email toy_verify ''k'' ex_db req_bob_add ''m2'' ''t1'' =
       (ex_db, \<lparr>res_status = 400,
                 res_json = JObj [(''status'', JBool False),
                   (''errors'', JArr [JObj
                      [(''message'', JStr ''You are not authorized to perform this action.''),
                       (''code'', JStr ''NOT_ALLOWED_ACCESS'')]])]\<rparr>)"
proof -
  have a: "truthy (session_jwt req_bob_add)"
    "decryptSession toy_verify ''k'' (session_jwt req_bob_add) = Inr (JStr ''u2'')"
    by (simp_all add: session_jwt_def req_bob_add_def getProp_def decryptSession_def toy_verify_def)
  have b: "getProp (req_body req_bob_add) ''community'' = JStr ''c1''"
    by (simp add: req_bob_add_def getProp_def)
  have v: "run_chains ex_str ex_email req_bob_add addMemberVal = []"
    by (simp add: run_chains_def run_chain_def addMemberVal_def req_bob_add_def
        withMessage_def isString_def existsFalsy_def body_def addValidator_def
        field_value_def getProp_def)
  have n: "u_id \<lparr>u_id = ''u1'', u_name = ''Ann'', u_email = ''ann@example.com'', u_password = ''h1'',
        u_createdAt = ''t0'', u_updatedAt = ''t0''\<rparr> \<noteq> ''u2''" by simp
  from non_owner_add_member_rejected [OF a chess_exists [folded b] chess_owner n,
      of ex_str ex_email "''m2''" "''t1''"] v a
  show ?thesis by simp
qed

subsection \<open>The moderator gate\<close>

text \<open>
  Claim C2, evaluated. Bob (\<open>u2\<close>) is signed in, is not the owner of the community
  \<open>c1\<close>, and holds the Member row \<open>m1\<close> with the role named \<open>Community Moderator\<close> for
  \<open>c1\<close>. His request names the community by its id in the body. The gate reads
  \<open>community.id\<close> of that id string, which is \<open>undefined\<close>, puts it into the membership
  query, and ends with the error of the query layer instead of continuing.
\<close>

theorem moderator_gate_rejects_moderator:
  "req_currentUser req_bob_moderates = Some (JStr ''u2'')
   \<and> getProp (req_body req_bob_moderates) ''community'' = JStr ''c1''
   \<and> Community_findByPk ex_db (JStr ''c1'') =
       Inr (Some \<lparr>c_id = ''c1'', c_name = ''Chess'', c_slug = ''chess'', c_ownerId = ''u1'',
        c_createdAt = ''t0'', c_updatedAt = ''t0''\<rparr>)
   \<and> Role_findOne_name ex_db ''Community Moderator'' =
       Some \<lparr>r_id = ''r1'', r_name = ''Community Moderator'', r_createdAt = ''t0'', r_updatedAt = ''t0''\<rparr>
   \<and> Member_findOne ex_db (JStr ''u2'') (JStr ''c1'') (JStr ''r1'') =
       Inr (Some \<lparr>m_id = ''m1'', m_communityId = ''c1'', m_userId = ''u2'', m_roleId = ''r1'',
        m_createdAt = ''t0'', m_updatedAt = ''t0''\<rparr>)
   \<and> idOf (JStr ''c1'') = Inr JUndefined
   \<and> isCommunityModerator ex_db req_bob_moderates = Inl queryError"
  by (simp add: isCommunityModerator_def req_bob_moderates_def ex_db_def getProp_def
      User_findByPk_def Community_findByPk_def Role_findOne_name_def Member_findOne_def
      getOwner_def)

text \<open>
  The same for every datastore and every request that names the community by an id
  string: the membership query is built from \<open>undefined\<close>, so the gate does not
  continue, not for the owner either.
\<close>

lemma moderator_gate_never_passes:
  "getProp (req_body req) ''community'' = JStr s \<Longrightarrow> isCommunityModerator d req \<noteq> Inr ()"
  by (auto simp: isCommunityModerator_def Member_findOne_def split: option.splits sum.splits)

subsection \<open>Adding a member\<close>

lemma find_None_filter: "find P xs = None \<longleftrightarrow> filter P xs = []"
  by (induction xs) auto

lemma find_append_new: "find P xs = None \<Longrightarrow> P x \<Longrightarrow> find P (xs @ [x]) = Some x"
  by (induction xs) (auto split: if_splits)

lemma gate_ignores_members:
  "isCommunityAdmin (d\<lparr>members := ms\<rparr>) req = isCommunityAdmin d req"
  by (simp add: isCommunityAdmin_def User_findByPk_def Community_findByPk_def getOwner_def
      cong: option.case_cong sum.case_cong)

text \<open>
  Claim C6. Take a request that passes the owner gate and names user \<open>u\<close>, community
  \<open>c\<close> and role \<open>r\<close>, where the role and the user exist and no Member row has the triple
  yet. The first \<open>addMember\<close> appends exactly one row for the triple and answers 200 with
  that row as data (its id, community, user, role and creation time), after which the
  triple has one row. A second \<open>addMember\<close> with the same triple (it
  passes the gate again) raises the general error with code \<open>RESOURCE_EXISTS\<close>, leaves the
  datastore as it is, and the triple still has one row.
\<close>

theorem add_member_twice:
  assumes gate: "isCommunityAdmin d req = Inr ()"
    and bu: "getProp (req_body req) ''user'' = JStr u"
    and bc: "getProp (req_body req) ''community'' = JStr c"
    and br: "getProp (req_body req) ''role'' = JStr r"
    and role: "Role_findByPk d (JStr r) = Inr (Some roleDoc)"
    and user: "User_findByPk d (JStr u) = Inr (Some userDoc)"
    and fresh: "triple_count d u c r = 0"
  shows "\<exists>d1 row.
       addMember d req id1 now1 =
         Inr (d1, \<lparr>res_status = 200,
                   res_json = JObj
                     [(''status'', JBool True),
                      (''content'', JObj
                        [(''data'', JObj
                           [(''id'', JStr id1),
                            (''community'', JStr c),
                            (''user'', JStr u),
                            (''role'', JStr r),
                            (''created_at'', JStr now1)])])]\<rparr>)
     \<and> row = \<lparr>m_id = id1, m_communityId = c, m_userId = u, m_roleId = r,
               m_createdAt = now1, m_updatedAt = now1\<rparr>
     \<and> d1 = d\<lparr>members := members d @ [row]\<rparr>
     \<and> triple_count d1 u c r = 1
     \<and> isCommunityAdmin d1 req = Inr ()
     \<and> addMember d1 req id2 now2 = Inl alreadyMember
     \<and> is_general alreadyMember
     \<and> serializeErrors alreadyMember =
          [[(''message'', JStr ''User is already added in the community.''),
            (''code'', JStr ''RESOURCE_EXISTS'')]]
     \<and> db_after d1 (addMember d1 req id2 now2) = d1
     \<and> triple_count (db_after d1 (addMember d1 req id2 now2)) u c r = 1"
proof -
  let ?P = "\<lambda>m. m_userId m \<in> set [u] \<and> m_communityId m \<in> set [c]
                \<and> m_roleId m \<in> set [r]"
  let ?row = "\<lparr>m_id = id1, m_communityId = c, m_userId = u, m_roleId = r,
               m_createdAt = now1, m_updatedAt = now1\<rparr>"
  let ?d1 = "d\<lparr>members := members d @ [?row]\<rparr>"
  from fresh have none: "find ?P (members d) = None"
    by (simp add: triple_count_def find_None_filter)
  have first: "addMember d req id1 now1 = Inr (?d1, memberResponse ?row)"
    using bu bc br role user none
    by (simp add: addMember_def Member_findOne_def Member_create_def Let_def)
  have cnt: "triple_count ?d1 u c r = 1"
    using fresh by (simp add: triple_count_def)
  have found: "find ?P (members ?d1) = Some ?row"
    using none by (simp add: find_append_new)
  have role1: "Role_findByPk ?d1 (JStr r) = Inr (Some roleDoc)"
    using role by (simp add: Role_findByPk_def)
  have user1: "User_findByPk ?d1 (JStr u) = Inr (Some userDoc)"
    using user by (simp add: User_findByPk_def)
  have second: "addMember ?d1 req id2 now2 = Inl alreadyMember"
    using bu bc br role1 user1 found
    by (simp add: addMember_def Member_findOne_def)
  have gate1: "isCommunityAdmin ?d1 req = Inr ()"
    using gate by (simp add: gate_ignores_members)
  have ser: "is_general alreadyMember"
    "serializeErrors alreadyMember =
          [[(''message'', JStr ''User is already added in the community.''),
            (''code'', JStr ''RESOURCE_EXISTS'')]]"
    by (simp_all add: is_general_def alreadyMember_def getProp_def)
  show ?thesis
    using first cnt second gate1 ser
    by (simp add: db_after_def memberResponse_def)
qed

text \<open>
  Example for C6: Ann, the owner of \<open>c1\<close>, adds herself with role \<open>r1\<close>, twice.
\<close>

theorem add_member_twice_witness:
  "isCommunityAdmin ex_db req_ann_add = Inr ()
   \<and> triple_count ex_db ''u1'' ''c1'' ''r1'' = 0
   \<and> addMember ex_db req_ann_add ''m2'' ''t1'' =
       Inr (ex_db\<lparr>members := members ex_db @
              [\<lparr>m_id = ''m2'', m_communityId = ''c1'', m_userId = ''u1'', m_roleId = ''r1'',
                m_createdAt = ''t1'', m_updatedAt = ''t1''\<rparr>]\<rparr>,
            \<lparr>res_status = 200,
             res_json = JObj
               [(''status'', JBool True),
                (''content'', JObj
                  [(''data'', JObj
                     [(''id'', JStr ''m2''),
                      (''community'', JStr ''c1''),
                      (''user'', JStr ''u1''),
                      (''role'', JStr ''r1''),
                      (''created_at'', JStr ''t1'')])])]\<rparr>)
   \<and> addMember (ex_db\<lparr>members := members ex_db @
              [\<lparr>m_id = ''m2'', m_communityId = ''c1'', m_userId = ''u1'', m_roleId = ''r1'',
                m_createdAt = ''t1'', m_updatedAt = ''t1''\<rparr>]\<rparr>) req_ann_add ''m3'' ''t2'' =
       Inl alreadyMember"
proof -
  have g: "isCommunityAdmin ex_db req_ann_add = Inr ()"
    by (simp add: isCommunityAdmin_def req_ann_add_def ex_db_def getProp_def
        User_findByPk_def Community_findByPk_def getOwner_def)
  have b: "getProp (req_body req_ann_add) ''user'' = JStr ''u1''"
    "getProp (req_body req_ann_add) ''community'' = JStr ''c1''"
    "getProp (req_body req_ann_add) ''role'' = JStr ''r1''"
    by (simp_all add: req_ann_add_def getProp_def)
  have r: "Role_findByPk ex_db (JStr ''r1'') =
      Inr (Some \<lparr>r_id = ''r1'', r_name = ''Community Moderator'', r_createdAt = ''t0'', r_updatedAt = ''t0''\<rparr>)"
    by (simp add: Role_findByPk_def ex_db_def)
  have u: "User_findByPk ex_db (JStr ''u1'') =
      Inr (Some \<lparr>u_id = ''u1'', u_name = ''Ann'', u_email = ''ann@example.com'', u_password = ''h1'',
        u_createdAt = ''t0'', u_updatedAt = ''t0''\<rparr>)"
    by (simp add: User_findByPk_def ex_db_def)
  have f: "triple_count ex_db ''u1'' ''c1'' ''r1'' = 0"
    by (simp add: triple_count_def ex_db_def)
  from add_member_twice [OF g b r u f, of "''m2''" "''t1''" "''m3''" "''t2''"] g f
  show ?thesis by auto
qed


subsection \<open>The slug of a community\<close>

lemma slugClass_nonword: "slugClass c = (\<not> isWord c)"
  by (auto simp: slugClass_def isSpace_def isWord_def)

lemma replaceAll_collapse:
  "collapseRuns p s True xs = replaceAll p [s] (dropWhile p xs)
   \<and> collapseRuns p s False xs = replaceAll p [s] xs"
  by (induction xs) auto

lemma slugify_word_slug: "slugify lower name = word_slug lower name"
proof -
  have "slugClass = (\<lambda>c. \<not> isWord c)" by (rule ext) (rule slugClass_nonword)
  then show ?thesis by (simp add: slugify_def word_slug_def replaceAll_collapse)
qed

lemma noDoubleSep_Cons:
  "noDoubleSep (a # xs) =
     ((xs = [] \<or> \<not> (a = CHR ''-'' \<and> hd xs = CHR ''-'')) \<and> noDoubleSep xs)"
  by (cases xs) auto

lemma collapse_noDouble:
  "p CHR ''-'' \<Longrightarrow>
     noDoubleSep (collapseRuns p CHR ''-'' b xs)
     \<and> (collapseRuns p CHR ''-'' True xs = []
          \<or> hd (collapseRuns p CHR ''-'' True xs) \<noteq> CHR ''-'')"
proof (induction xs arbitrary: b)
  case Nil
  then show ?case by simp
next
  case (Cons c cs)
  from Cons.IH [OF Cons.prems, of True] Cons.IH [OF Cons.prems, of False] Cons.prems
  show ?case by (auto simp: noDoubleSep_Cons)
qed

lemma collapse_chars:
  "set (collapseRuns p s b xs) \<subseteq> insert s {x \<in> set xs. \<not> p x}"
  by (induction xs arbitrary: b) auto

lemma toLowerChar_not_upper: "toLowerChar c \<notin> set ''ABCDEFGHIJKLMNOPQRSTUVWXYZ''"
proof (cases "map_of (zip ''ABCDEFGHIJKLMNOPQRSTUVWXYZ'' ''abcdefghijklmnopqrstuvwxyz'') c")
  case None
  have "map fst (zip ''ABCDEFGHIJKLMNOPQRSTUVWXYZ'' ''abcdefghijklmnopqrstuvwxyz'')
          = ''ABCDEFGHIJKLMNOPQRSTUVWXYZ''"
    by (rule map_fst_zip) simp
  then have "fst ` set (zip ''ABCDEFGHIJKLMNOPQRSTUVWXYZ'' ''abcdefghijklmnopqrstuvwxyz'')
          = set ''ABCDEFGHIJKLMNOPQRSTUVWXYZ''"
    by (metis set_map)
  with None have "c \<notin> set ''ABCDEFGHIJKLMNOPQRSTUVWXYZ''"
    by (simp only: map_of_eq_None_iff not_False_eq_True)
  moreover from None have "toLowerChar c = c"
    by (simp only: toLowerChar_def option.case)
  ultimately show ?thesis by (simp only: not_False_eq_True)
next
  case (Some l)
  then have "(c, l) \<in> set (zip ''ABCDEFGHIJKLMNOPQRSTUVWXYZ'' ''abcdefghijklmnopqrstuvwxyz'')"
    by (rule map_of_SomeD)
  then have "l \<in> set ''abcdefghijklmnopqrstuvwxyz''" by (rule set_zip_rightD)
  then have "l \<notin> set ''ABCDEFGHIJKLMNOPQRSTUVWXYZ''" by auto
  moreover from Some have "toLowerChar c = l"
    by (simp only: toLowerChar_def option.case)
  ultimately show ?thesis by (simp only: not_False_eq_True)
qed

lemma word_lower_slugChars:
  "isWord x \<Longrightarrow> x \<notin> set ''ABCDEFGHIJKLMNOPQRSTUVWXYZ'' \<Longrightarrow> x \<in> slugChars"
  by (auto simp: isWord_def slugChars_def)

lemma word_wordOrSep: "isWord x \<Longrightarrow> x \<in> wordOrSep"
  by (auto simp: isWord_def wordOrSep_def)

lemma word_slug_chars: "set (word_slug lower name) \<subseteq> wordOrSep"
proof
  fix x assume "x \<in> set (word_slug lower name)"
  then have "x = CHR ''-'' \<or> isWord x"
    using collapse_chars [of "\<lambda>c. \<not> isWord c" "CHR ''-''" False "lowerCase lower name"]
    by (auto simp: word_slug_def)
  then show "x \<in> wordOrSep"
  proof
    assume "x = CHR ''-''" then show ?thesis by (simp add: wordOrSep_def)
  next
    assume "isWord x" then show ?thesis by (rule word_wordOrSep)
  qed
qed

lemma word_slug_chars_ascii:
  assumes "list_all isAscii name"
  shows "set (word_slug lower name) \<subseteq> slugChars"
proof
  fix x assume "x \<in> set (word_slug lower name)"
  then have "x = CHR ''-'' \<or> (x \<in> set (toLowerCase name) \<and> isWord x)"
    using assms
      collapse_chars [of "\<lambda>c. \<not> isWord c" "CHR ''-''" False "lowerCase lower name"]
    by (auto simp: word_slug_def lowerCase_def)
  then show "x \<in> slugChars"
  proof
    assume "x = CHR ''-''" then show ?thesis by (simp add: slugChars_def)
  next
    assume a: "x \<in> set (toLowerCase name) \<and> isWord x"
    then obtain c where "x = toLowerChar c" by (auto simp: toLowerCase_def)
    with toLowerChar_not_upper [of c] a show ?thesis by (simp add: word_lower_slugChars)
  qed
qed

lemma word_slug_noDouble: "noDoubleSep (word_slug lower name)"
  using collapse_noDouble [of "\<lambda>c. \<not> isWord c" False "lowerCase lower name"]
  by (simp add: word_slug_def isWord_def)

lemma accepted_name:
  assumes "run_chains str email req createCommunityVal = []"
  shows "\<exists>name. getProp (req_body req) ''name'' = JStr name \<and> 2 \<le> length name"
proof (cases "getProp (req_body req) ''name''")
  case (JStr s)
  with assms show ?thesis
    by (auto simp: run_chains_def run_chain_def createCommunityVal_def
        withMessage_def isLength_def isString_def vexists_def body_def addValidator_def
        field_value_def split: if_splits)
qed (use assms in \<open>auto simp: run_chains_def run_chain_def createCommunityVal_def
        withMessage_def isLength_def isString_def vexists_def body_def addValidator_def
        field_value_def split: if_splits\<close>)

lemma createCommunity_result:
  assumes "createCommunity lower d req newId roleId memberId now = Inr (d', res)"
    and "getProp (req_body req) ''name'' = JStr name"
  shows "\<exists>ownerId.
      communities d' = communities d @
        [\<lparr>c_id = newId, c_name = name, c_slug = slugify lower name,
          c_ownerId = ownerId, c_createdAt = now, c_updatedAt = now\<rparr>]
    \<and> res = communityResponse
        \<lparr>c_id = newId, c_name = name, c_slug = slugify lower name,
         c_ownerId = ownerId, c_createdAt = now, c_updatedAt = now\<rparr>"
  using assms
  by (auto simp: createCommunity_def Let_def split: option.splits sum.splits prod.splits)

text \<open>
  Claim C7, as the code has it. For every request whose name the create-community rule
  set accepts (a string of at least two characters) and for which \<open>createCommunity\<close>
  stores a community, the stored slug, which is also the slug of the response, is the
  name lowercased with every run of non-word characters (characters other than ASCII
  letters, digits and the underscore) collapsed to a single hyphen. So no two hyphens are
  adjacent, and every character of the slug is an ASCII letter, a digit, an underscore or
  the hyphen; for a name of ASCII characters the letters of the slug are lowercase.
\<close>

theorem stored_slug:
  assumes ok: "run_chains str email req createCommunityVal = []"
    and run: "createCommunity lower d req newId roleId memberId now = Inr (d', res)"
  shows "\<exists>name community.
       getProp (req_body req) ''name'' = JStr name \<and> 2 \<le> length name
     \<and> communities d' = communities d @ [community]
     \<and> c_name community = name
     \<and> c_slug community = slugify lower name
     \<and> jfield (content_of res ''data'') ''slug'' = JStr (c_slug community)
     \<and> c_slug community = word_slug lower name
     \<and> noDoubleSep (c_slug community)
     \<and> set (c_slug community) \<subseteq> wordOrSep
     \<and> (list_all isAscii name \<longrightarrow> set (c_slug community) \<subseteq> slugChars)"
proof -
  from accepted_name [OF ok] obtain name where
    n: "getProp (req_body req) ''name'' = JStr name" "2 \<le> length name" by blast
  from createCommunity_result [OF run n(1)] obtain ownerId where
    "communities d' = communities d @
        [\<lparr>c_id = newId, c_name = name, c_slug = slugify lower name,
          c_ownerId = ownerId, c_createdAt = now, c_updatedAt = now\<rparr>]"
    "res = communityResponse
        \<lparr>c_id = newId, c_name = name, c_slug = slugify lower name,
         c_ownerId = ownerId, c_createdAt = now, c_updatedAt = now\<rparr>"
    by blast
  then have
    "communities d' = communities d @
        [\<lparr>c_id = newId, c_name = name, c_slug = slugify lower name,
          c_ownerId = ownerId, c_createdAt = now, c_updatedAt = now\<rparr>]"
    "jfield (content_of res ''data'') ''slug'' = JStr (slugify lower name)"
    by (auto simp: communityResponse_def content_of_def jfield_def getProp_def)
  with n show ?thesis
    using slugify_word_slug [of lower name] word_slug_noDouble [of lower name]
      word_slug_chars [of lower name] word_slug_chars_ascii [of name lower]
    by auto
qed

lemma slugify_hello: "slugify lower ''Hello,  World!'' = ''hello-world-''"
  by (simp add: slugify_def lowerCase_def isAscii_def toLowerCase_def toLowerChar_def
      slugClass_def isSpace_def isWord_def)

lemma slugify_underscore: "slugify lower ''a_b'' = ''a_b''"
  by (simp add: slugify_def lowerCase_def isAscii_def toLowerCase_def toLowerChar_def
      slugClass_def isSpace_def isWord_def)

lemma spec_slug_underscore: "spec_slug lower ''a_b'' = ''a-b''"
  by (simp add: spec_slug_def lowerCase_def isAscii_def toLowerCase_def toLowerChar_def
      isAlnum_def)

lemma hello_accepted: "run_chains ex_str ex_email req_ann_hello createCommunityVal = []"
  by (simp add: run_chains_def run_chain_def createCommunityVal_def req_ann_hello_def
      withMessage_def isLength_def isString_def vexists_def body_def addValidator_def
      field_value_def getProp_def)

lemma underscore_accepted:
  "run_chains ex_str ex_email req_ann_underscore createCommunityVal = []"
  by (simp add: run_chains_def run_chain_def createCommunityVal_def req_ann_underscore_def
      withMessage_def isLength_def isString_def vexists_def body_def addValidator_def
      field_value_def getProp_def)

lemma underscore_created:
  "map c_slug (communities (db_after ex_db
       (createCommunity ex_lower ex_db req_ann_underscore ''c2'' ''r2'' ''m2'' ''t1''))) =
     [''chess'', ''a_b'']"
  by (simp add: createCommunity_def req_ann_underscore_def ex_db_def getProp_def
      User_findByPk_def Role_findOne_name_def db_after_def slugify_underscore Let_def)

text \<open>
  C7 as stated fails: the name \<open>a_b\<close> is accepted and stored with the slug \<open>a_b\<close>,
  where the underscore, which is neither alphanumeric nor the separator, survives;
  collapsing the non-alphanumeric runs would give \<open>a-b\<close>.
\<close>

theorem slug_underscore_counterexample:
  "run_chains ex_str ex_email req_ann_underscore createCommunityVal = []
   \<and> map c_slug (communities (db_after ex_db
         (createCommunity ex_lower ex_db req_ann_underscore ''c2'' ''r2'' ''m2'' ''t1''))) =
       [''chess'', ''a_b'']
   \<and> spec_slug ex_lower ''a_b'' = ''a-b''
   \<and> CHR ''_'' \<in> set ''a_b'' \<and> \<not> isAlnum CHR ''_'' \<and> CHR ''_'' \<noteq> CHR ''-''"
  using underscore_accepted underscore_created spec_slug_underscore [of ex_lower]
  by (simp add: isAlnum_def)

text \<open>Example for C7: Ann creates the community \<open>Hello,  World!\<close>.\<close>

theorem stored_slug_witness:
  "run_chains ex_str ex_email req_ann_hello createCommunityVal = []
   \<and> map c_slug (communities (db_after ex_db
         (createCommunity ex_lower ex_db req_ann_hello ''c2'' ''r2'' ''m2'' ''t1''))) =
       [''chess'', ''hello-world-'']
   \<and> noDoubleSep ''hello-world-''"
proof -
  obtain d' res where
    run: "createCommunity ex_lower ex_db req_ann_hello ''c2'' ''r2'' ''m2'' ''t1''
            = Inr (d', res)"
    by (simp add: createCommunity_def req_ann_hello_def ex_db_def getProp_def
        User_findByPk_def Role_findOne_name_def Let_def)
  have b: "getProp (req_body req_ann_hello) ''name'' = JStr ''Hello,  World!''"
    by (simp add: req_ann_hello_def getProp_def)
  from stored_slug [OF hello_accepted run] b obtain community where
    c: "communities d' = communities ex_db @ [community]"
       "c_slug community = slugify ex_lower ''Hello,  World!''"
       "noDoubleSep (c_slug community)"
    by auto
  have "map c_slug (communities d') = [''chess'', ''hello-world-'']"
    using c by (simp add: slugify_hello ex_db_def)
  with c hello_accepted run show ?thesis
    by (simp add: db_after_def slugify_hello)
qed

subsection \<open>The role listing\<close>





lemma getAllRole_ignores_query:
  "getAllRole prim skip d (req\<lparr>req_query := q\<rparr>) = getAllRole prim skip d req"
  by (simp add: getAllRole_def requestedPage_def)





subsection \<open>User data in responses\<close>

lemma getProp_setProp_other: "k' \<noteq> k \<Longrightarrow> getProp (setProp ob k v) k' = getProp ob k'"
  by (simp add: getProp_def setProp_def update_conv')

lemma sessionResponse_keys:
  "jkeys (jfield (res_json (sessionResponse user tok)) ''content'') = [''data'', ''meta'']
   \<and> jkeys (content_of (sessionResponse user tok) ''data'') = [''id'', ''name'', ''email'', ''created_at'']
   \<and> jkeys (content_of (sessionResponse user tok) ''meta'') = [''access_token'']"
  by (simp add: sessionResponse_def user_data_def content_of_def jfield_def jkeys_def getProp_def)

lemma user_data_password: "user_data (u\<lparr>u_password := p\<rparr>) = user_data u"
  by (simp add: user_data_def)

lemma signup_result:
  assumes "signupUser sign secret hashPw d req newId now = Inr (d', req', res)"
  shows "\<exists>n e p. getProp (req_body req) ''name'' = JStr n
      \<and> getProp (req_body req) ''email'' = JStr e
      \<and> res = sessionResponse
           \<lparr>u_id = newId, u_name = n, u_email = e, u_password = p,
            u_createdAt = now, u_updatedAt = now\<rparr>
           (sign [(''id'', JStr newId)] secret)"
  using assms
  by (auto simp: signupUser_def User_create_def encryptSession_def Let_def
      split: sum.splits option.splits jsval.splits)

lemma signup_hides_password:
  assumes a: "signupUser sign secret hashPw d req newId now = Inr (d', req', res)"
  shows "jkeys (jfield (res_json res) ''content'') = [''data'', ''meta'']
     \<and> jkeys (content_of res ''data'') = [''id'', ''name'', ''email'', ''created_at'']
     \<and> jkeys (content_of res ''meta'') = [''access_token'']
     \<and> (\<forall>hashPw2 pw2 d2 req2 res2.
           signupUser sign secret hashPw2 d
             (req\<lparr>req_body := setProp (req_body req) ''password'' pw2\<rparr>) newId now
             = Inr (d2, req2, res2) \<longrightarrow> res2 = res)"
proof -
  from signup_result [OF a] obtain n e p where r:
    "getProp (req_body req) ''name'' = JStr n" "getProp (req_body req) ''email'' = JStr e"
    "res = sessionResponse
           \<lparr>u_id = newId, u_name = n, u_email = e, u_password = p,
            u_createdAt = now, u_updatedAt = now\<rparr> (sign [(''id'', JStr newId)] secret)"
    by blast
  have "res2 = res"
    if b: "signupUser sign secret hashPw2 d
             (req\<lparr>req_body := setProp (req_body req) ''password'' pw2\<rparr>) newId now
             = Inr (d2, req2, res2)" for hashPw2 pw2 d2 req2 res2
  proof -
    from signup_result [OF b] r(1,2) obtain p2 where
      "res2 = sessionResponse
           \<lparr>u_id = newId, u_name = n, u_email = e, u_password = p2,
            u_createdAt = now, u_updatedAt = now\<rparr> (sign [(''id'', JStr newId)] secret)"
      by (auto simp: getProp_setProp_other)
    with r(3) show ?thesis by (simp add: sessionResponse_def user_data_def)
  qed
  with r(3) sessionResponse_keys show ?thesis by blast
qed

lemma find_forget:
  assumes "\<And>u. P (u\<lparr>u_password := []\<rparr>) = P u"
  shows "find P (map (\<lambda>u. u\<lparr>u_password := []\<rparr>) xs)
           = map_option (\<lambda>u. u\<lparr>u_password := []\<rparr>) (find P xs)"
  using assms by (induction xs) auto

lemma forget_find_email:
  assumes "forgetPasswords d2 = forgetPasswords d"
    and "find (\<lambda>u. u_email u \<in> set k) (users d) = Some u"
    and "find (\<lambda>u. u_email u \<in> set k) (users d2) = Some u2"
  shows "u2\<lparr>u_password := []\<rparr> = u\<lparr>u_password := []\<rparr>"
proof -
  from assms(1) have "users (forgetPasswords d2) = users (forgetPasswords d)" by simp
  then have m: "map (\<lambda>u. u\<lparr>u_password := []\<rparr>) (users d2)
      = map (\<lambda>u. u\<lparr>u_password := []\<rparr>) (users d)"
    by (simp add: forgetPasswords_def)
  have ff: "find (\<lambda>u. u_email u \<in> set k) (map (\<lambda>u. u\<lparr>u_password := []\<rparr>) xs)
      = map_option (\<lambda>u. u\<lparr>u_password := []\<rparr>) (find (\<lambda>u. u_email u \<in> set k) xs)" for xs
    by (rule find_forget) simp
  from ff [of "users d2"] ff [of "users d"] m assms(2,3) show ?thesis by simp
qed

lemma forget_find_id:
  assumes "forgetPasswords d2 = forgetPasswords d"
  shows "map_option (\<lambda>u. u\<lparr>u_password := []\<rparr>) (find (\<lambda>u. u_id u \<in> set k) (users d2))
       = map_option (\<lambda>u. u\<lparr>u_password := []\<rparr>) (find (\<lambda>u. u_id u \<in> set k) (users d))"
proof -
  from assms(1) have "users (forgetPasswords d2) = users (forgetPasswords d)" by simp
  then have m: "map (\<lambda>u. u\<lparr>u_password := []\<rparr>) (users d2)
      = map (\<lambda>u. u\<lparr>u_password := []\<rparr>) (users d)"
    by (simp add: forgetPasswords_def)
  have ff: "find (\<lambda>u. u_id u \<in> set k) (map (\<lambda>u. u\<lparr>u_password := []\<rparr>) xs)
      = map_option (\<lambda>u. u\<lparr>u_password := []\<rparr>) (find (\<lambda>u. u_id u \<in> set k) xs)" for xs
    by (rule find_forget) simp
  from ff [of "users d2"] ff [of "users d"] m show ?thesis by simp
qed

lemma forget_same_view:
  assumes "u2\<lparr>u_password := []\<rparr> = u\<lparr>u_password := []\<rparr>"
  shows "user_data u2 = user_data u \<and> u_id u2 = u_id u"
proof -
  have "user_data (u2\<lparr>u_password := []\<rparr>) = user_data (u\<lparr>u_password := []\<rparr>)"
    "u_id (u2\<lparr>u_password := []\<rparr>) = u_id (u\<lparr>u_password := []\<rparr>)"
    using assms by simp_all
  then show ?thesis by (simp add: user_data_password)
qed

lemma signin_result:
  assumes "signinUser sign secret compare d req = Inr (req', res)"
  shows "\<exists>k u. whereArg (getProp (req_body req) ''email'') = Inr k
      \<and> find (\<lambda>u. u_email u \<in> set k) (users d) = Some u
      \<and> res = sessionResponse u (sign [(''id'', JStr (u_id u))] secret)"
  using assms
  by (auto simp: signinUser_def User_findOne_email_def encryptSession_def Let_def
      split: sum.splits option.splits if_splits)

lemma signin_hides_password:
  assumes a: "signinUser sign secret compare d req = Inr (req', res)"
  shows "jkeys (jfield (res_json res) ''content'') = [''data'', ''meta'']
     \<and> jkeys (content_of res ''data'') = [''id'', ''name'', ''email'', ''created_at'']
     \<and> jkeys (content_of res ''meta'') = [''access_token'']
     \<and> (\<forall>compare2 pw2 d2 req2 res2.
           forgetPasswords d2 = forgetPasswords d
           \<and> signinUser sign secret compare2 d2
               (req\<lparr>req_body := setProp (req_body req) ''password'' pw2\<rparr>)
               = Inr (req2, res2) \<longrightarrow> res2 = res)"
proof -
  from signin_result [OF a] obtain k u where r:
    "whereArg (getProp (req_body req) ''email'') = Inr k"
    "find (\<lambda>u. u_email u \<in> set k) (users d) = Some u"
    "res = sessionResponse u (sign [(''id'', JStr (u_id u))] secret)"
    by blast
  have "res2 = res"
    if f: "forgetPasswords d2 = forgetPasswords d"
      and b: "signinUser sign secret compare2 d2
               (req\<lparr>req_body := setProp (req_body req) ''password'' pw2\<rparr>)
               = Inr (req2, res2)" for compare2 pw2 d2 req2 res2
  proof -
    from signin_result [OF b] r(1) obtain u2 where r2:
      "find (\<lambda>u. u_email u \<in> set k) (users d2) = Some u2"
      "res2 = sessionResponse u2 (sign [(''id'', JStr (u_id u2))] secret)"
      by (auto simp: getProp_setProp_other)
    from forget_same_view [OF forget_find_email [OF f r(2) r2(1)]]
    show ?thesis using r(3) r2(2) by (simp add: sessionResponse_def)
  qed
  with r(3) sessionResponse_keys show ?thesis by blast
qed

lemma getMe_hides_password:
  assumes a: "getMe d req = Inr res"
  shows "jkeys (jfield (res_json res) ''content'') = [''data'']
     \<and> jkeys (content_of res ''data'') = [''id'', ''name'', ''email'', ''created_at'']
     \<and> (\<forall>d2. forgetPasswords d2 = forgetPasswords d \<longrightarrow> getMe d2 req = Inr res)"
proof -
  from a obtain ident k u where r:
    "req_currentUser req = Some ident" "truthy ident" "whereArg ident = Inr k"
    "find (\<lambda>u. u_id u \<in> set k) (users d) = Some u"
    "res = \<lparr>res_status = 200,
            res_json = JObj [(''status'', JBool True),
                             (''content'', JObj [(''data'', user_data u)])]\<rparr>"
    by (auto simp: getMe_def User_findOne_id_def split: option.splits if_splits sum.splits)
  have "getMe d2 req = Inr res" if f: "forgetPasswords d2 = forgetPasswords d" for d2
  proof -
    from forget_find_id [OF f, of k] r(4) obtain u2 where
      u2: "find (\<lambda>u. u_id u \<in> set k) (users d2) = Some u2"
          "u2\<lparr>u_password := []\<rparr> = u\<lparr>u_password := []\<rparr>"
      by (cases "find (\<lambda>u. u_id u \<in> set k) (users d2)") auto
    from forget_same_view [OF u2(2)] u2(1) r show ?thesis
      by (simp add: getMe_def User_findOne_id_def)
  qed
  with r(5) show ?thesis
    by (simp add: content_of_def jfield_def jkeys_def getProp_def user_data_def)
qed

text \<open>
  Claim C9. A success response of sign up, sign in or get current user has in its data
  exactly the keys id, name, email and created_at, next to which sign up and sign in
  return only the access token; and it does not depend on the password or its hash:
  sign up answers the same whatever password the body holds and whatever the hashing
  primitive returns, sign in answers the same for every datastore that differs only in
  the stored password hashes (and every password and comparison that succeed), and so
  does get current user.
\<close>

theorem user_responses_hide_password:
  "(signupUser sign secret hashPw d req newId now = Inr (d', req', res) \<longrightarrow>
        jkeys (jfield (res_json res) ''content'') = [''data'', ''meta'']
      \<and> jkeys (content_of res ''data'') = [''id'', ''name'', ''email'', ''created_at'']
      \<and> jkeys (content_of res ''meta'') = [''access_token'']
      \<and> (\<forall>hashPw2 pw2 d2 req2 res2.
           signupUser sign secret hashPw2 d
             (req\<lparr>req_body := setProp (req_body req) ''password'' pw2\<rparr>) newId now
             = Inr (d2, req2, res2) \<longrightarrow> res2 = res))
   \<and> (signinUser sign secret compare d req = Inr (req', res) \<longrightarrow>
        jkeys (jfield (res_json res) ''content'') = [''data'', ''meta'']
      \<and> jkeys (content_of res ''data'') = [''id'', ''name'', ''email'', ''created_at'']
      \<and> jkeys (content_of res ''meta'') = [''access_token'']
      \<and> (\<forall>compare2 pw2 d2 req2 res2.
           forgetPasswords d2 = forgetPasswords d
           \<and> signinUser sign secret compare2 d2
               (req\<lparr>req_body := setProp (req_body req) ''password'' pw2\<rparr>)
               = Inr (req2, res2) \<longrightarrow> res2 = res))
   \<and> (getMe d req = Inr res \<longrightarrow>
        jkeys (jfield (res_json res) ''content'') = [''data'']
      \<and> jkeys (content_of res ''data'') = [''id'', ''name'', ''email'', ''created_at'']
      \<and> (\<forall>d2. forgetPasswords d2 = forgetPasswords d \<longrightarrow> getMe d2 req = Inr res))"
  using signup_hides_password [of sign secret hashPw d req newId now d' req' res]
    signin_hides_password [of sign secret compare d req req' res]
    getMe_hides_password [of d req res]
  by blast


lemma account_requests_valid:
  "run_chains ex_str ex_email req_signup signupUserVal = []"
  "run_chains ex_str ex_email req_signin signinUserVal = []"
  "run_chains ex_str ex_email req_signin_array signinUserVal = []"
  by (simp_all add: run_chains_def run_chain_def signupUserVal_def signinUserVal_def
      req_signup_def req_signin_def req_signin_array_def withMessage_def isLength_def
      isString_def isEmail_def vexists_def body_def addValidator_def field_value_def
      getProp_def ex_email_def)

text \<open>
  Example for C9: Cy signs up; Dee signs in, once with her e-mail address and once with
  the address inside an array, and asks for her own record. The three bodies pass the
  rule sets of their routes.
\<close>

theorem user_responses_hide_password_witness:
  "run_chains ex_str ex_email req_signup signupUserVal = []
   \<and> run_chains ex_str ex_email req_signin signinUserVal = []
   \<and> run_chains ex_str ex_email req_signin_array signinUserVal = []
   \<and> (\<exists>d' req' res.
       signupUser toy_sign ''k'' ex_hash ex_accounts req_signup ''u3'' ''t1'' = Inr (d', req', res)
     \<and> last (users d') = \<lparr>u_id = ''u3'', u_name = ''Cy'', u_email = ''cy@example.com'',
           u_password = ''hpw'', u_createdAt = ''t1'', u_updatedAt = ''t1''\<rparr>
     \<and> content_of res ''data'' = JObj [(''id'', JStr ''u3''), (''name'', JStr ''Cy''),
           (''email'', JStr ''cy@example.com''), (''created_at'', JStr ''t1'')]
     \<and> jkeys (content_of res ''data'') = [''id'', ''name'', ''email'', ''created_at''])
   \<and> (\<exists>req' res.
       signinUser toy_sign ''k'' ex_compare ex_accounts req_signin = Inr (req', res)
     \<and> content_of res ''data'' = JObj [(''id'', JStr ''u7''), (''name'', JStr ''Dee''),
           (''email'', JStr ''dee@example.com''), (''created_at'', JStr ''t0'')]
     \<and> jkeys (content_of res ''data'') = [''id'', ''name'', ''email'', ''created_at''])
   \<and> (\<exists>req' res.
       signinUser toy_sign ''k'' ex_compare ex_accounts req_signin_array = Inr (req', res)
     \<and> content_of res ''data'' = JObj [(''id'', JStr ''u7''), (''name'', JStr ''Dee''),
           (''email'', JStr ''dee@example.com''), (''created_at'', JStr ''t0'')]
     \<and> jkeys (content_of res ''data'') = [''id'', ''name'', ''email'', ''created_at''])
   \<and> (\<exists>res. getMe ex_accounts req_me = Inr res
     \<and> jkeys (content_of res ''data'') = [''id'', ''name'', ''email'', ''created_at''])"
proof -
  obtain d1 req1 res1 where
    up: "signupUser toy_sign ''k'' ex_hash ex_accounts req_signup ''u3'' ''t1''
           = Inr (d1, req1, res1)"
    and u1: "last (users d1) = \<lparr>u_id = ''u3'', u_name = ''Cy'', u_email = ''cy@example.com'',
           u_password = ''hpw'', u_createdAt = ''t1'', u_updatedAt = ''t1''\<rparr>"
    and c1: "content_of res1 ''data'' = JObj [(''id'', JStr ''u3''), (''name'', JStr ''Cy''),
           (''email'', JStr ''cy@example.com''), (''created_at'', JStr ''t1'')]"
    by (simp add: signupUser_def req_signup_def ex_accounts_def getProp_def
        User_findOne_email_def User_create_def ex_hash_def Let_def sessionResponse_def
        user_data_def content_of_def jfield_def)
  obtain req2 res2 where
    inn: "signinUser toy_sign ''k'' ex_compare ex_accounts req_signin = Inr (req2, res2)"
    and c2: "content_of res2 ''data'' = JObj [(''id'', JStr ''u7''), (''name'', JStr ''Dee''),
           (''email'', JStr ''dee@example.com''), (''created_at'', JStr ''t0'')]"
    by (simp add: signinUser_def req_signin_def ex_accounts_def getProp_def
        User_findOne_email_def comparePasswords_def ex_compare_def Let_def
        sessionResponse_def user_data_def content_of_def jfield_def)
  obtain req3 res3 where
    arr: "signinUser toy_sign ''k'' ex_compare ex_accounts req_signin_array = Inr (req3, res3)"
    and c3: "content_of res3 ''data'' = JObj [(''id'', JStr ''u7''), (''name'', JStr ''Dee''),
           (''email'', JStr ''dee@example.com''), (''created_at'', JStr ''t0'')]"
    by (simp add: signinUser_def req_signin_array_def ex_accounts_def getProp_def
        User_findOne_email_def comparePasswords_def ex_compare_def Let_def
        sessionResponse_def user_data_def content_of_def jfield_def)
  obtain res4 where me: "getMe ex_accounts req_me = Inr res4"
    by (simp add: getMe_def req_me_def ex_accounts_def User_findOne_id_def)
  from user_responses_hide_password
         [of toy_sign "''k''" ex_hash ex_accounts req_signup "''u3''" "''t1''" d1 req1 res1] up
  have k1: "jkeys (content_of res1 ''data'') = [''id'', ''name'', ''email'', ''created_at'']"
    by blast
  from user_responses_hide_password
         [of toy_sign "''k''" _ ex_accounts req_signin _ _ _ req2 res2 ex_compare] inn
  have k2: "jkeys (content_of res2 ''data'') = [''id'', ''name'', ''email'', ''created_at'']"
    by blast
  from user_responses_hide_password
         [of toy_sign "''k''" _ ex_accounts req_signin_array _ _ _ req3 res3 ex_compare] arr
  have k3: "jkeys (content_of res3 ''data'') = [''id'', ''name'', ''email'', ''created_at'']"
    by blast
  from user_responses_hide_password [where d = ex_accounts and req = req_me and res = res4] me
  have k4: "jkeys (content_of res4 ''data'') = [''id'', ''name'', ''email'', ''created_at'']"
    by blast
  from account_requests_valid up u1 c1 k1 inn c2 k2 arr c3 k3 me k4 show ?thesis by blast
qed

end
